theory Spec2Isabelle
  imports
    Complex_Main
    "HOL-Library.AList"
    "HOL-Library.Char_ord"
    "HOL-Library.List_Lexorder"
    "HOL-Library.Multiset"
    "HOL-Library.Product_Lexorder"
begin

section \<open>Values, documents and the library interface\<close>

text \<open>
  The backend (\<^verbatim>\<open>src/main.py\<close>) moves Python dictionaries between HTTP requests and a
  document store. A dictionary \<^verbatim>\<open>Dict[str, Any]\<close> is an association list from
  field names to values; lookups go through \<^const>\<open>map_of\<close>, assignment \<^verbatim>\<open>d[k] = v\<close> is
  \<^const>\<open>AList.update\<close> and \<^verbatim>\<open>d.pop(k)\<close> is \<^const>\<open>AList.delete\<close>.

  The values are the ones this program stores: \<^verbatim>\<open>None\<close>, booleans, strings, floats
  (as rationals), lists of strings (\<^verbatim>\<open>tags\<close>), naive \<^verbatim>\<open>datetime\<close> objects and
  \<^verbatim>\<open>ObjectId\<close>s. A \<^verbatim>\<open>datetime\<close> is the number of microseconds since
  0001-01-01T00:00:00, the quantity its arithmetic and its comparison work on. An
  \<^verbatim>\<open>ObjectId\<close> holds bytes (12 of them when it is well formed), kept here as their
  lower-case hexadecimal digits, two for a byte, which is what \<^verbatim>\<open>str\<close> returns for it.
\<close>

type_synonym datetime = int

datatype object_id = ObjectId (hex: string)

datatype val =
    VNull
  | VBool bool
  | VStr string
  | VNum rat
  | VList "string list"
  | VDate datetime
  | VOid object_id

type_synonym doc = "(string \<times> val) list"

text \<open>
  Functions of Python's standard library and of the store's query engine that
  \<^verbatim>\<open>main.py\<close> calls but does not define are parameters of the model:
  \<^item> \<open>regex_search p opts s\<close>: does the regular expression \<open>p\<close>, with options \<open>opts\<close>,
    match somewhere in \<open>s\<close> (the store's \<^verbatim>\<open>$regex\<close> operator);
  \<^item> \<open>sha256_hexdigest\<close>: \<^verbatim>\<open>hashlib.sha256(s.encode("utf-8")).hexdigest()\<close>;
  \<^item> \<open>isoformat\<close>: \<^verbatim>\<open>datetime.isoformat\<close>;
  \<^item> \<open>str_other\<close>: \<^verbatim>\<open>str\<close> on floats, lists and datetimes.
  Every theorem below holds for all of them.
\<close>

record pylib =
  regex_search :: "string \<Rightarrow> string \<Rightarrow> string \<Rightarrow> bool"
  sha256_hexdigest :: "string \<Rightarrow> string"
  isoformat :: "datetime \<Rightarrow> string"
  str_other :: "val \<Rightarrow> string"

text \<open>Python's \<^verbatim>\<open>str(v)\<close>.\<close>

fun py_str :: "pylib \<Rightarrow> val \<Rightarrow> string" where
  "py_str L (VOid i) = hex i"
| "py_str L (VStr s) = s"
| "py_str L VNull = ''None''"
| "py_str L (VBool b) = (if b then ''True'' else ''False'')"
| "py_str L v = str_other L v"

datatype error = HTTPException nat string | TypeError | DuplicateKeyError

section \<open>Utilities\<close>

text \<open>
  \<^verbatim>\<open>
  def serialize(doc):
      if doc is None:
          return doc
      d = dict(doc)
      if "_id" in d:
          d["id"] = str(d.pop("_id"))
      for k, v in list(d.items()):
          if isinstance(v, datetime):
              d[k] = v.isoformat()
      return d
  \<close>
  The loop replaces, in place, the value of every key that holds a \<^verbatim>\<open>datetime\<close>;
  on a dictionary (whose keys are distinct) that is a map over the entries.
\<close>

fun serialize_value :: "pylib \<Rightarrow> val \<Rightarrow> val" where
  "serialize_value L (VDate t) = VStr (isoformat L t)"
| "serialize_value L v = v"

definition serialize :: "pylib \<Rightarrow> doc option \<Rightarrow> doc option" where
  "serialize L doc =
     (case doc of
        None \<Rightarrow> None
      | Some d0 \<Rightarrow>
          let d = (case map_of d0 ''_id'' of
                     Some i \<Rightarrow> AList.update ''id'' (VStr (py_str L i)) (AList.delete ''_id'' d0)
                   | None \<Rightarrow> d0)
          in Some (map (\<lambda>(k, v). (k, serialize_value L v)) d))"

text \<open>
  \<^verbatim>\<open>
  def hash_password(password):
      return hashlib.sha256(password.encode("utf-8")).hexdigest()
  \<close>
\<close>

definition hash_password :: "pylib \<Rightarrow> string \<Rightarrow> string" where
  "hash_password L password = sha256_hexdigest L password"


text \<open>
  \<^verbatim>\<open>
  def oid(id_str):
      try:
          return ObjectId(id_str)
      except Exception:
          raise HTTPException(status_code=400, detail="Invalid id format")
  \<close>
  The constructor \<^verbatim>\<open>ObjectId(s)\<close> of the \<^verbatim>\<open>bson\<close> library, given a string, raises
  unless \<^verbatim>\<open>len(s) == 24\<close>, and then takes \<^verbatim>\<open>bytes.fromhex(s)\<close> as the id, raising
  when that raises. \<^verbatim>\<open>bytes.fromhex\<close> reads pairs of hexadecimal digits, in either case,
  and skips ASCII whitespace before a pair; it raises on any other character, on
  whitespace between the two digits of a pair and on a digit left alone at the end. So a
  string of 24 hexadecimal digits becomes a 12-byte id, and a string of 24 characters
  some of which are whitespace becomes a shorter one.
\<close>

definition is_hex_digit :: "char \<Rightarrow> bool" where
  "is_hex_digit c = (c \<in> set ''0123456789abcdefABCDEF'')"

definition lower_char :: "char \<Rightarrow> char" where
  "lower_char c =
     (let n = (of_char c :: nat) in if 65 \<le> n \<and> n \<le> 90 then char_of (n + 32) else c)"

definition is_space :: "char \<Rightarrow> bool" where
  "is_space c = (let n = (of_char c :: nat) in n = 32 \<or> (9 \<le> n \<and> n \<le> 13))"

fun fromhex :: "string \<Rightarrow> string option" where
  "fromhex [] = Some []"
| "fromhex [c] = (if is_space c then Some [] else None)"
| "fromhex (c # d # cs) =
     (if is_space c then fromhex (d # cs)
      else if is_hex_digit c \<and> is_hex_digit d
      then map_option (\<lambda>r. lower_char c # lower_char d # r) (fromhex cs)
      else None)"

definition object_id_of_str :: "string \<Rightarrow> object_id option" where
  "object_id_of_str s = (if length s = 24 then map_option ObjectId (fromhex s) else None)"

definition oid :: "string \<Rightarrow> error + object_id" where
  "oid id_str =
     (case object_id_of_str id_str of
        Some i \<Rightarrow> Inr i
      | None \<Rightarrow> Inl (HTTPException 400 ''Invalid id format''))"

definition ALLOWED_COLLECTIONS :: "(string \<times> string) list" where
  "ALLOWED_COLLECTIONS =
     [(''beacons'', ''beacon''),
      (''resources'', ''resource''),
      (''tutors'', ''tutor''),
      (''clubs'', ''club''),
      (''events'', ''event''),
      (''lostfound'', ''lostfound''),
      (''market'', ''market'')]"

section \<open>The document store\<close>

text \<open>
  The handlers reach the store through \<^verbatim>\<open>db\<close>, imported from the module
  \<^verbatim>\<open>database\<close>, which is not among the sources. \<^verbatim>\<open>db\<close> is \<^verbatim>\<open>None\<close> when no store is
  configured; otherwise \<^verbatim>\<open>db[name]\<close> is a collection, here the list of its documents
  in insertion order.
\<close>

type_synonym collection = "doc list"

type_synonym database = "string \<Rightarrow> collection"

text \<open>
  A filter document. \<open>Dict\<close> is a dictionary of conditions, all of which must hold;
  \<open>Field k c\<close> is the entry \<^verbatim>\<open>k: c\<close> and \<open>AnyOf\<close> the entry \<^verbatim>\<open>"$or": [...]\<close>.
  A condition is a value to be equal to, or \<^verbatim>\<open>{"$regex": p, "$options": o}\<close>.
\<close>

datatype cond = Eq val | Regex string string

datatype query = Dict "query list" | Field string cond | AnyOf "query list"

text \<open>
  Modelled from the spec: the Document Store Adapter (\<^verbatim>\<open>insertOne\<close>, \<^verbatim>\<open>findOne\<close>,
  \<^verbatim>\<open>find\<close> with a sort, \<^verbatim>\<open>deleteOne\<close>), whose code is absent from the sources. A
  regular expression is searched in a stored string value only ("substring match over
  the stored string value; absent stored field never matches"), equality compares the
  stored value with the given one.
\<close>

fun matches :: "pylib \<Rightarrow> query \<Rightarrow> doc \<Rightarrow> bool" where
  "matches L (Dict es) d = list_all (\<lambda>e. matches L e d) es"
| "matches L (AnyOf qs) d = list_ex (\<lambda>q. matches L q d) qs"
| "matches L (Field k (Eq v)) d = (map_of d k = Some v)"
| "matches L (Field k (Regex p opts)) d =
     (case map_of d k of Some (VStr s) \<Rightarrow> regex_search L p opts s | _ \<Rightarrow> False)"

definition find_docs :: "pylib \<Rightarrow> query \<Rightarrow> collection \<Rightarrow> doc list" where
  "find_docs L q c = filter (matches L q) c"

definition find_one :: "pylib \<Rightarrow> query \<Rightarrow> collection \<Rightarrow> doc option" where
  "find_one L q c = find (matches L q) c"

text \<open>
  Modelled from the spec: \<^verbatim>\<open>insertOne(collection, doc) -> generatedId\<close>. The driver
  gives a document without \<^verbatim>\<open>_id\<close> a newly generated \<^verbatim>\<open>ObjectId\<close> (\<open>new_id\<close>, drawn by
  the environment); the store keeps \<^verbatim>\<open>_id\<close> unique within a collection and refuses a
  duplicate.
\<close>

definition insert_one :: "collection \<Rightarrow> doc \<Rightarrow> object_id \<Rightarrow> error + (collection \<times> val)" where
  "insert_one c d new_id =
     (let (d', i) = (case map_of d ''_id'' of
                       None \<Rightarrow> ((''_id'', VOid new_id) # d, VOid new_id)
                     | Some i \<Rightarrow> (d, i))
      in if list_ex (\<lambda>x. map_of x ''_id'' = Some i) c then Inl DuplicateKeyError
         else Inr (c @ [d'], i))"

text \<open>
  Modelled from the spec: \<^verbatim>\<open>deleteOne(collection, predicate) -> deletedCount\<close>
  removes the first matching document, if there is one.
\<close>

fun remove_first :: "('a \<Rightarrow> bool) \<Rightarrow> 'a list \<Rightarrow> 'a list \<times> nat" where
  "remove_first P [] = ([], 0)"
| "remove_first P (x # xs) =
     (if P x then (xs, 1) else (let (ys, n) = remove_first P xs in (x # ys, n)))"

definition delete_one :: "pylib \<Rightarrow> query \<Rightarrow> collection \<Rightarrow> collection \<times> nat" where
  "delete_one L q c = remove_first (matches L q) c"

text \<open>
  Modelled from the spec: the sort of \<^verbatim>\<open>find\<close>. Documents are compared on one field
  in the store's order of values: a missing field counts as null, null comes before
  numbers, numbers before strings, then arrays, object ids, booleans and dates; within a
  kind the values are compared. Direction \<open>1\<close> is ascending, any other descending.
\<close>

type_synonym sort_rank = "nat \<times> rat \<times> string \<times> string list \<times> bool \<times> int"

fun bson_key :: "val option \<Rightarrow> sort_rank" where
  "bson_key None = (1, 0, [], [], False, 0)"
| "bson_key (Some VNull) = (1, 0, [], [], False, 0)"
| "bson_key (Some (VNum r)) = (2, r, [], [], False, 0)"
| "bson_key (Some (VStr s)) = (3, 0, s, [], False, 0)"
| "bson_key (Some (VList xs)) = (5, 0, [], xs, False, 0)"
| "bson_key (Some (VOid i)) = (7, 0, hex i, [], False, 0)"
| "bson_key (Some (VBool b)) = (8, 0, [], [], b, 0)"
| "bson_key (Some (VDate t)) = (9, 0, [], [], False, t)"

definition field_key :: "string \<Rightarrow> doc \<Rightarrow> sort_rank" where
  "field_key k d = bson_key (map_of d k)"

definition sort_docs :: "string \<Rightarrow> int \<Rightarrow> doc list \<Rightarrow> doc list" where
  "sort_docs k direction ds =
     (if direction = 1 then sort_key (field_key k) ds else rev (sort_key (field_key k) ds))"

section \<open>Request models\<close>

text \<open>
  \<^verbatim>\<open>
  def build_filter(q, location, subject):
      f = {}
      if q:
          f["$or"] = [
              {"title": {"$regex": q, "$options": "i"}},
              {"description": {"$regex": q, "$options": "i"}},
          ]
      if location:
          f["location"] = {"$regex": location, "$options": "i"}
      if subject:
          f["subject"] = {"$regex": subject, "$options": "i"}
      return f
  \<close>
  \<^verbatim>\<open>if q:\<close> holds when \<^verbatim>\<open>q\<close> is neither \<^verbatim>\<open>None\<close> nor the empty string.
\<close>

definition truthy :: "string option \<Rightarrow> bool" where
  "truthy x = (case x of None \<Rightarrow> False | Some s \<Rightarrow> s \<noteq> [])"

definition build_filter :: "string option \<Rightarrow> string option \<Rightarrow> string option \<Rightarrow> query" where
  "build_filter q loc subj =
     (let f = [];
          f = (case q of
                 Some s \<Rightarrow>
                   if truthy q
                   then f @ [AnyOf [Dict [Field ''title'' (Regex s ''i'')],
                                    Dict [Field ''description'' (Regex s ''i'')]]]
                   else f
               | None \<Rightarrow> f);
          f = (case loc of
                 Some s \<Rightarrow> if truthy loc then f @ [Field ''location'' (Regex s ''i'')] else f
               | None \<Rightarrow> f);
          f = (case subj of
                 Some s \<Rightarrow> if truthy subj then f @ [Field ''subject'' (Regex s ''i'')] else f
               | None \<Rightarrow> f)
      in Dict f)"

record signup_request =
  student_id :: string
  name :: string
  email :: string
  password :: string

record login_request =
  login_identifier :: string
  login_password :: string

record create_item_request =
  title :: string
  description :: "string option"
  owner_id :: "string option"
  owner_name :: "string option"
  location :: "string option"
  subject :: "string option"
  price :: "rat option"
  condition :: "string option"
  url :: "string option"
  tags :: "string list option"
  start_time :: "datetime option"
  end_time :: "datetime option"
  rate_per_hour :: "rat option"
  availability :: "string option"
  status :: "string option"

text \<open>\<^verbatim>\<open>payload.model_dump()\<close>: every declared field, an unset optional one as \<^verbatim>\<open>None\<close>.\<close>

definition opt :: "('a \<Rightarrow> val) \<Rightarrow> 'a option \<Rightarrow> val" where
  "opt f x = (case x of None \<Rightarrow> VNull | Some y \<Rightarrow> f y)"

definition model_dump :: "create_item_request \<Rightarrow> doc" where
  "model_dump p =
     [(''title'', VStr (title p)),
      (''description'', opt VStr (description p)),
      (''owner_id'', opt VStr (owner_id p)),
      (''owner_name'', opt VStr (owner_name p)),
      (''location'', opt VStr (location p)),
      (''subject'', opt VStr (subject p)),
      (''price'', opt VNum (price p)),
      (''condition'', opt VStr (condition p)),
      (''url'', opt VStr (url p)),
      (''tags'', opt VList (tags p)),
      (''start_time'', opt VDate (start_time p)),
      (''end_time'', opt VDate (end_time p)),
      (''rate_per_hour'', opt VNum (rate_per_hour p)),
      (''availability'', opt VStr (availability p)),
      (''status'', opt VStr (status p))]"

text \<open>
  What the environment supplies during one request: the successive readings of
  \<^verbatim>\<open>datetime.utcnow()\<close>, the \<^verbatim>\<open>ObjectId\<close> the driver generates for an inserted
  document, and the result of \<^verbatim>\<open>uuid4()\<close>.
\<close>

record env =
  utcnow1 :: datetime
  utcnow2 :: datetime
  new_object_id :: object_id
  uuid4 :: string

section \<open>Routes\<close>

subsection \<open>Auth\<close>

text \<open>
  \<^verbatim>\<open>
  def signup(payload):
      if db is None:
          raise HTTPException(status_code=500, detail="Database not configured")
      existing = db["user"].find_one({"$or": [{"student_id": payload.student_id},
                                              {"email": payload.email}]})
      if existing:
          raise HTTPException(status_code=400, detail="Account already exists")
      user_doc = {"student_id": ..., "name": ..., "email": ...,
                  "password_hash": hash_password(payload.password),
                  "avatar_url": None, "bio": None,
                  "created_at": datetime.utcnow(), "updated_at": datetime.utcnow()}
      result = db["user"].insert_one(user_doc)
      return {"id": str(result.inserted_id), "message": "Signup successful"}
  \<close>
  A handler returns its response or the exception it raised, and the store it leaves.
  \<^verbatim>\<open>if existing:\<close> holds for a dictionary that is not empty.
\<close>

definition signup ::
  "pylib \<Rightarrow> env \<Rightarrow> signup_request \<Rightarrow> database option \<Rightarrow> (error + doc) \<times> database option" where
  "signup L E payload db =
     (case db of
        None \<Rightarrow> (Inl (HTTPException 500 ''Database not configured''), db)
      | Some st \<Rightarrow>
          let existing = find_one L
                (Dict [AnyOf [Dict [Field ''student_id'' (Eq (VStr (student_id payload)))],
                              Dict [Field ''email'' (Eq (VStr (email payload)))]]])
                (st ''user'')
          in if existing \<noteq> None \<and> existing \<noteq> Some [] then
               (Inl (HTTPException 400 ''Account already exists''), db)
             else
               let user_doc =
                     [(''student_id'', VStr (student_id payload)),
                      (''name'', VStr (name payload)),
                      (''email'', VStr (email payload)),
                      (''password_hash'', VStr (hash_password L (password payload))),
                      (''avatar_url'', VNull),
                      (''bio'', VNull),
                      (''created_at'', VDate (utcnow1 E)),
                      (''updated_at'', VDate (utcnow2 E))]
               in (case insert_one (st ''user'') user_doc (new_object_id E) of
                     Inl e \<Rightarrow> (Inl e, db)
                   | Inr (c, inserted_id) \<Rightarrow>
                       (Inr [(''id'', VStr (py_str L inserted_id)),
                             (''message'', VStr ''Signup successful'')],
                        Some (st(''user'' := c)))))"

text \<open>
  \<^verbatim>\<open>
  def login(payload):
      if db is None:
          raise HTTPException(status_code=500, detail="Database not configured")
      user = db["user"].find_one({"$or": [{"email": payload.identifier},
                                          {"student_id": payload.identifier}]})
      if not user or user.get("password_hash") != hash_password(payload.password):
          raise HTTPException(status_code=401, detail="Invalid credentials")
      token = str(uuid4())
      session_doc = {"user_id": str(user.get("_id")), "token": token,
                     "created_at": datetime.utcnow(),
                     "expires_at": datetime.utcnow() + timedelta(days=7)}
      db["session"].insert_one(session_doc)
      return {"token": token, "user": serialize(user)}
  \<close>
  \<^verbatim>\<open>user.get(k)\<close> is \<^verbatim>\<open>None\<close> for a missing key. Seven days are
  \<open>7 * 86400 * 10^6\<close> microseconds.
\<close>

record login_response =
  token :: string
  user :: "doc option"

definition dict_get :: "doc \<Rightarrow> string \<Rightarrow> val" where
  "dict_get d k = (case map_of d k of None \<Rightarrow> VNull | Some v \<Rightarrow> v)"

definition timedelta_days :: "int \<Rightarrow> int" where
  "timedelta_days n = n * 86400 * 1000000"

definition login ::
  "pylib \<Rightarrow> env \<Rightarrow> login_request \<Rightarrow> database option
     \<Rightarrow> (error + login_response) \<times> database option" where
  "login L E payload db =
     (case db of
        None \<Rightarrow> (Inl (HTTPException 500 ''Database not configured''), db)
      | Some st \<Rightarrow>
          (case find_one L
                  (Dict [AnyOf [Dict [Field ''email'' (Eq (VStr (login_identifier payload)))],
                                Dict [Field ''student_id'' (Eq (VStr (login_identifier payload)))]]])
                  (st ''user'') of
             None \<Rightarrow> (Inl (HTTPException 401 ''Invalid credentials''), db)
           | Some u \<Rightarrow>
               if u = [] \<or> dict_get u ''password_hash''
                             \<noteq> VStr (hash_password L (login_password payload))
               then (Inl (HTTPException 401 ''Invalid credentials''), db)
               else
                 let tok = uuid4 E;
                     session_doc =
                       [(''user_id'', VStr (py_str L (dict_get u ''_id''))),
                        (''token'', VStr tok),
                        (''created_at'', VDate (utcnow1 E)),
                        (''expires_at'', VDate (utcnow2 E + timedelta_days 7))]
                 in (case insert_one (st ''session'') session_doc (new_object_id E) of
                       Inl e \<Rightarrow> (Inl e, db)
                     | Inr (c, inserted_id) \<Rightarrow>
                         (Inr \<lparr> token = tok, user = serialize L (Some u) \<rparr>,
                          Some (st(''session'' := c))))))"

subsection \<open>Data fetch endpoints\<close>

text \<open>
  \<^verbatim>\<open>
  def list_beacons(q=None, location=None, subject=None):
      filt = build_filter(q, location, subject)
      items = db["beacon"].find(filt).sort("created_at", -1)
      return [serialize(x) for x in items]
  \<close>
  and likewise for the other six collections; \<^verbatim>\<open>list_clubs\<close>, \<^verbatim>\<open>list_events\<close> and
  \<^verbatim>\<open>list_market\<close> take no \<^verbatim>\<open>subject\<close> and pass \<^verbatim>\<open>None\<close>, and \<^verbatim>\<open>list_events\<close> sorts
  with \<^verbatim>\<open>.sort("start_time", 1)\<close>. These handlers do not test \<^verbatim>\<open>db\<close>: subscripting
  \<^verbatim>\<open>None\<close> raises \<^verbatim>\<open>TypeError\<close>.
\<close>

definition find_sorted ::
  "pylib \<Rightarrow> database \<Rightarrow> string \<Rightarrow> query \<Rightarrow> string \<Rightarrow> int \<Rightarrow> doc list" where
  "find_sorted L st coll filt k direction = sort_docs k direction (find_docs L filt (st coll))"

definition list_beacons ::
  "pylib \<Rightarrow> string option \<Rightarrow> string option \<Rightarrow> string option \<Rightarrow> database option
     \<Rightarrow> error + doc option list" where
  "list_beacons L q loc subj db =
     (case db of
        None \<Rightarrow> Inl TypeError
      | Some st \<Rightarrow>
          let filt = build_filter q loc subj;
              items = find_sorted L st ''beacon'' filt ''created_at'' (- 1)
          in Inr (map (\<lambda>x. serialize L (Some x)) items))"

definition list_resources ::
  "pylib \<Rightarrow> string option \<Rightarrow> string option \<Rightarrow> string option \<Rightarrow> database option
     \<Rightarrow> error + doc option list" where
  "list_resources L q loc subj db =
     (case db of
        None \<Rightarrow> Inl TypeError
      | Some st \<Rightarrow>
          let filt = build_filter q loc subj;
              items = find_sorted L st ''resource'' filt ''created_at'' (- 1)
          in Inr (map (\<lambda>x. serialize L (Some x)) items))"

definition list_tutors ::
  "pylib \<Rightarrow> string option \<Rightarrow> string option \<Rightarrow> string option \<Rightarrow> database option
     \<Rightarrow> error + doc option list" where
  "list_tutors L q loc subj db =
     (case db of
        None \<Rightarrow> Inl TypeError
      | Some st \<Rightarrow>
          let filt = build_filter q loc subj;
              items = find_sorted L st ''tutor'' filt ''created_at'' (- 1)
          in Inr (map (\<lambda>x. serialize L (Some x)) items))"

definition list_clubs ::
  "pylib \<Rightarrow> string option \<Rightarrow> string option \<Rightarrow> database option \<Rightarrow> error + doc option list" where
  "list_clubs L q loc db =
     (case db of
        None \<Rightarrow> Inl TypeError
      | Some st \<Rightarrow>
          let filt = build_filter q loc None;
              items = find_sorted L st ''club'' filt ''created_at'' (- 1)
          in Inr (map (\<lambda>x. serialize L (Some x)) items))"

definition list_events ::
  "pylib \<Rightarrow> string option \<Rightarrow> string option \<Rightarrow> database option \<Rightarrow> error + doc option list" where
  "list_events L q loc db =
     (case db of
        None \<Rightarrow> Inl TypeError
      | Some st \<Rightarrow>
          let filt = build_filter q loc None;
              items = find_sorted L st ''event'' filt ''start_time'' 1
          in Inr (map (\<lambda>x. serialize L (Some x)) items))"

definition list_lostfound ::
  "pylib \<Rightarrow> string option \<Rightarrow> string option \<Rightarrow> string option \<Rightarrow> database option
     \<Rightarrow> error + doc option list" where
  "list_lostfound L q loc subj db =
     (case db of
        None \<Rightarrow> Inl TypeError
      | Some st \<Rightarrow>
          let filt = build_filter q loc subj;
              items = find_sorted L st ''lostfound'' filt ''created_at'' (- 1)
          in Inr (map (\<lambda>x. serialize L (Some x)) items))"

definition list_market ::
  "pylib \<Rightarrow> string option \<Rightarrow> string option \<Rightarrow> database option \<Rightarrow> error + doc option list" where
  "list_market L q loc db =
     (case db of
        None \<Rightarrow> Inl TypeError
      | Some st \<Rightarrow>
          let filt = build_filter q loc None;
              items = find_sorted L st ''market'' filt ''created_at'' (- 1)
          in Inr (map (\<lambda>x. serialize L (Some x)) items))"

text \<open>
  The explicit list handler that the source declares for each endpoint; a query
  parameter the handler does not declare is ignored.
\<close>

definition explicit_list_handler ::
  "pylib \<Rightarrow> string \<Rightarrow> string option \<Rightarrow> string option \<Rightarrow> string option \<Rightarrow> database option
     \<Rightarrow> (error + doc option list) option" where
  "explicit_list_handler L endpoint q loc subj db =
     (if endpoint = ''beacons'' then Some (list_beacons L q loc subj db)
      else if endpoint = ''resources'' then Some (list_resources L q loc subj db)
      else if endpoint = ''tutors'' then Some (list_tutors L q loc subj db)
      else if endpoint = ''clubs'' then Some (list_clubs L q loc db)
      else if endpoint = ''events'' then Some (list_events L q loc db)
      else if endpoint = ''lostfound'' then Some (list_lostfound L q loc subj db)
      else if endpoint = ''market'' then Some (list_market L q loc db)
      else None)"

text \<open>
  Before the explicit handlers, the source declares a generic one on the same seven
  paths:
  \<^verbatim>\<open>
  @app.get("/beacons")
  @app.get("/resources")
  @app.get("/tutors")
  @app.get("/clubs")
  @app.get("/events")
  @app.get("/lostfound")
  @app.get("/market")
  def list_items(q=Query(default=None), location=Query(default=None),
                 subject=Query(default=None)):
      path = "events"
      async def inner(request): ...
      return {"detail": "Improper call"}
  \<close>
  It defines \<^verbatim>\<open>inner\<close>, never calls it, and returns the fixed dictionary without
  touching \<^verbatim>\<open>db\<close>.
\<close>

definition list_items :: "string option \<Rightarrow> string option \<Rightarrow> string option \<Rightarrow> doc" where
  "list_items q loc subj = [(''detail'', VStr ''Improper call'')]"

text \<open>
  The \<^verbatim>\<open>GET\<close> routes of the seven list paths in the order in which the decorators
  register them: a stack of decorators is applied from the bottom, so \<^verbatim>\<open>list_items\<close> is
  registered on \<^verbatim>\<open>/market\<close> first and on \<^verbatim>\<open>/beacons\<close> last, and the explicit handlers
  follow. The framework answers a request with the first registered route that matches
  its method and path. (The routes \<^verbatim>\<open>/\<close> and \<^verbatim>\<open>/test\<close>, registered earlier still, match
  none of these paths.)
\<close>

datatype list_handler =
    ListItems
  | ListBeacons
  | ListResources
  | ListTutors
  | ListClubs
  | ListEvents
  | ListLostfound
  | ListMarket

definition get_routes :: "(string \<times> list_handler) list" where
  "get_routes =
     [(''/market'', ListItems),
      (''/lostfound'', ListItems),
      (''/events'', ListItems),
      (''/clubs'', ListItems),
      (''/tutors'', ListItems),
      (''/resources'', ListItems),
      (''/beacons'', ListItems),
      (''/beacons'', ListBeacons),
      (''/resources'', ListResources),
      (''/tutors'', ListTutors),
      (''/clubs'', ListClubs),
      (''/events'', ListEvents),
      (''/lostfound'', ListLostfound),
      (''/market'', ListMarket)]"

text \<open>A response body is one dictionary or a list of serialized records.\<close>

datatype body = Record doc | Records "doc option list"

definition records :: "error + doc option list \<Rightarrow> error + body" where
  "records r = (case r of Inl e \<Rightarrow> Inl e | Inr rs \<Rightarrow> Inr (Records rs))"

fun call_handler ::
  "pylib \<Rightarrow> list_handler \<Rightarrow> string option \<Rightarrow> string option \<Rightarrow> string option
     \<Rightarrow> database option \<Rightarrow> error + body" where
  "call_handler L ListItems q loc subj db = Inr (Record (list_items q loc subj))"
| "call_handler L ListBeacons q loc subj db = records (list_beacons L q loc subj db)"
| "call_handler L ListResources q loc subj db = records (list_resources L q loc subj db)"
| "call_handler L ListTutors q loc subj db = records (list_tutors L q loc subj db)"
| "call_handler L ListClubs q loc subj db = records (list_clubs L q loc db)"
| "call_handler L ListEvents q loc subj db = records (list_events L q loc db)"
| "call_handler L ListLostfound q loc subj db = records (list_lostfound L q loc subj db)"
| "call_handler L ListMarket q loc subj db = records (list_market L q loc db)"

text \<open>
  The list operation of an endpoint: the answer to \<^verbatim>\<open>GET /<endpoint>\<close>, given by the
  first route registered on that path; \<open>None\<close> when no list route has the path.
\<close>

definition list_endpoint ::
  "pylib \<Rightarrow> string \<Rightarrow> string option \<Rightarrow> string option \<Rightarrow> string option \<Rightarrow> database option
     \<Rightarrow> (error + body) option" where
  "list_endpoint L endpoint q loc subj db =
     (case map_of get_routes (''/'' @ endpoint) of
        None \<Rightarrow> None
      | Some h \<Rightarrow> Some (call_handler L h q loc subj db))"

subsection \<open>Create and delete\<close>

text \<open>
  \<^verbatim>\<open>
  def create_item(endpoint, payload):
      if endpoint not in ALLOWED_COLLECTIONS:
          raise HTTPException(status_code=404, detail="Unknown endpoint")
      if db is None:
          raise HTTPException(status_code=500, detail="Database not configured")
      doc = {k: v for k, v in payload.model_dump().items() if v is not None}
      doc["created_at"] = datetime.utcnow()
      doc["updated_at"] = datetime.utcnow()
      inserted = db[ALLOWED_COLLECTIONS[endpoint]].insert_one(doc)
      created = db[ALLOWED_COLLECTIONS[endpoint]].find_one({"_id": inserted.inserted_id})
      return serialize(created)
  \<close>
\<close>

definition new_doc :: "env \<Rightarrow> create_item_request \<Rightarrow> doc" where
  "new_doc E payload =
     (let doc = filter (\<lambda>(k, v). v \<noteq> VNull) (model_dump payload);
          doc = AList.update ''created_at'' (VDate (utcnow1 E)) doc;
          doc = AList.update ''updated_at'' (VDate (utcnow2 E)) doc
      in doc)"

definition create_item ::
  "pylib \<Rightarrow> env \<Rightarrow> string \<Rightarrow> create_item_request \<Rightarrow> database option
     \<Rightarrow> (error + doc option) \<times> database option" where
  "create_item L E endpoint payload db =
     (case map_of ALLOWED_COLLECTIONS endpoint of
        None \<Rightarrow> (Inl (HTTPException 404 ''Unknown endpoint''), db)
      | Some coll \<Rightarrow>
          (case db of
             None \<Rightarrow> (Inl (HTTPException 500 ''Database not configured''), db)
           | Some st \<Rightarrow>
               (case insert_one (st coll) (new_doc E payload) (new_object_id E) of
                  Inl e \<Rightarrow> (Inl e, db)
                | Inr (c, inserted_id) \<Rightarrow>
                    let st' = st(coll := c);
                        created = find_one L (Dict [Field ''_id'' (Eq inserted_id)]) (st' coll)
                    in (Inr (serialize L created), Some st'))))"

text \<open>
  \<^verbatim>\<open>
  def delete_item(endpoint, item_id):
      if endpoint not in ALLOWED_COLLECTIONS:
          raise HTTPException(status_code=404, detail="Unknown endpoint")
      if db is None:
          raise HTTPException(status_code=500, detail="Database not configured")
      res = db[ALLOWED_COLLECTIONS[endpoint]].delete_one({"_id": oid(item_id)})
      if res.deleted_count == 0:
          raise HTTPException(status_code=404, detail="Item not found")
      return {"success": True}
  \<close>
  The argument \<^verbatim>\<open>oid(item_id)\<close> is evaluated, and may raise, before \<^verbatim>\<open>delete_one\<close>
  is called.
\<close>

definition delete_item ::
  "pylib \<Rightarrow> string \<Rightarrow> string \<Rightarrow> database option \<Rightarrow> (error + doc) \<times> database option" where
  "delete_item L endpoint item_id db =
     (case map_of ALLOWED_COLLECTIONS endpoint of
        None \<Rightarrow> (Inl (HTTPException 404 ''Unknown endpoint''), db)
      | Some coll \<Rightarrow>
          (case db of
             None \<Rightarrow> (Inl (HTTPException 500 ''Database not configured''), db)
           | Some st \<Rightarrow>
               (case oid item_id of
                  Inl e \<Rightarrow> (Inl e, db)
                | Inr i \<Rightarrow>
                    let (c, deleted_count) =
                          delete_one L (Dict [Field ''_id'' (Eq (VOid i))]) (st coll);
                        st' = st(coll := c)
                    in if deleted_count = 0
                       then (Inl (HTTPException 404 ''Item not found''), Some st')
                       else (Inr [(''success'', VBool True)], Some st'))))"

section \<open>A library instance for running the model\<close>

text \<open>
  To evaluate the model on concrete inputs the library parameters have to be fixed.
  \<open>sample_lib\<close> searches a pattern literally and without regard to case (what a regular
  expression free of metacharacters does under option \<^verbatim>\<open>i\<close>); in place of the digest
  it prefixes its input with \<^verbatim>\<open>sha256:\<close>, and in place of a rendering it returns the
  fixed strings \<^verbatim>\<open>isoformat\<close> and \<^verbatim>\<open>str\<close>. It is used only in the concrete instances
  that follow the general theorems, together with a small store, one set of values
  drawn from the environment and one request of each kind.
\<close>

fun starts_with :: "string \<Rightarrow> string \<Rightarrow> bool" where
  "starts_with [] s = True"
| "starts_with (c # p) [] = False"
| "starts_with (c # p) (x # s) = (c = x \<and> starts_with p s)"

fun contains :: "string \<Rightarrow> string \<Rightarrow> bool" where
  "contains p [] = (p = [])"
| "contains p (c # cs) = (starts_with p (c # cs) \<or> contains p cs)"

definition icontains :: "string \<Rightarrow> string \<Rightarrow> bool" where
  "icontains p s = contains (map lower_char p) (map lower_char s)"

definition sample_lib :: pylib where
  "sample_lib =
     \<lparr> regex_search = (\<lambda>p opts s. if opts = ''i'' then icontains p s else contains p s),
       sha256_hexdigest = (\<lambda>s. ''sha256:'' @ s),
       isoformat = (\<lambda>t. ''isoformat''),
       str_other = (\<lambda>v. ''str'') \<rparr>"

definition sample_db :: database where
  "sample_db coll =
     (if coll = ''event'' then
        [[(''_id'', VOid (ObjectId ''0000000000000000000000e1'')), (''title'', VStr ''Hackathon''),
          (''location'', VStr ''Library''), (''start_time'', VDate 300),
          (''created_at'', VDate 10), (''updated_at'', VDate 10)],
         [(''_id'', VOid (ObjectId ''0000000000000000000000e2'')), (''title'', VStr ''Chess night''),
          (''start_time'', VDate 100), (''created_at'', VDate 20), (''updated_at'', VDate 20)],
         [(''_id'', VOid (ObjectId ''0000000000000000000000e3'')), (''title'', VStr ''Open mic''),
          (''created_at'', VDate 30), (''updated_at'', VDate 30)]]
      else if coll = ''beacon'' then
        [[(''_id'', VOid (ObjectId ''0000000000000000000000b1'')),
          (''title'', VStr ''Calculus study group''), (''location'', VStr ''Library''),
          (''subject'', VStr ''Math''), (''created_at'', VDate 10), (''updated_at'', VDate 10)],
         [(''_id'', VOid (ObjectId ''0000000000000000000000b2'')),
          (''title'', VStr ''Physics lab help''), (''subject'', VStr ''Physics''),
          (''created_at'', VDate 20), (''updated_at'', VDate 20)]]
      else if coll = ''user'' then
        [[(''_id'', VOid (ObjectId ''0000000000000000000000a1'')), (''student_id'', VStr ''s1''),
          (''name'', VStr ''Ada''), (''email'', VStr ''ada@uni.edu''),
          (''password_hash'', VStr ''sha256:secret''), (''avatar_url'', VNull), (''bio'', VNull),
          (''created_at'', VDate 5), (''updated_at'', VDate 5)]]
      else [])"

definition sample_env :: env where
  "sample_env =
     \<lparr> utcnow1 = 1000, utcnow2 = 1001,
       new_object_id = ObjectId ''0000000000000000000000ff'',
       uuid4 = ''3f2b8c1e-9d4a-4e6f-8a7b-5c0d1e2f3a4b'' \<rparr>"

definition sample_payload :: create_item_request where
  "sample_payload =
     \<lparr> title = ''Desk lamp'', description = None, owner_id = None, owner_name = None,
       location = None, subject = None, price = Some 10, condition = None, url = None,
       tags = None, start_time = None, end_time = None, rate_per_hour = None,
       availability = None, status = None \<rparr>"

definition sample_signup :: signup_request where
  "sample_signup =
     \<lparr> student_id = ''s2'', name = ''Bob'', email = ''bob@uni.edu'', password = ''hunter2'' \<rparr>"

definition sample_login :: login_request where
  "sample_login = \<lparr> login_identifier = ''ada@uni.edu'', login_password = ''secret'' \<rparr>"

section \<open>Vocabulary of the claims\<close>

text \<open>
  The filter as the specification words it: a term that is absent holds of every record;
  a term that is present, the empty string included, holds when one of the named fields
  is stored as a string that contains it, case ignored.
\<close>

definition field_contains :: "doc \<Rightarrow> string \<Rightarrow> string \<Rightarrow> bool" where
  "field_contains d k p = (case map_of d k of Some (VStr s) \<Rightarrow> icontains p s | _ \<Rightarrow> False)"

definition spec_term :: "string option \<Rightarrow> string list \<Rightarrow> doc \<Rightarrow> bool" where
  "spec_term x ks d =
     (case x of None \<Rightarrow> True | Some p \<Rightarrow> list_ex (\<lambda>k. field_contains d k p) ks)"

definition spec_matches ::
  "string option \<Rightarrow> string option \<Rightarrow> string option \<Rightarrow> doc \<Rightarrow> bool" where
  "spec_matches q loc subj d =
     (spec_term q [''title'', ''description''] d \<and> spec_term loc [''location''] d
      \<and> spec_term subj [''subject''] d)"

text \<open>
  The filter as the code builds it: a term that is absent or empty holds of every record;
  any other term holds when the store finds it, as a regular expression with option
  \<^verbatim>\<open>i\<close>, in one of the named fields stored as a string.
\<close>

definition field_search :: "pylib \<Rightarrow> doc \<Rightarrow> string \<Rightarrow> string \<Rightarrow> bool" where
  "field_search L d k p =
     (case map_of d k of Some (VStr s) \<Rightarrow> regex_search L p ''i'' s | _ \<Rightarrow> False)"

definition term_holds :: "pylib \<Rightarrow> string option \<Rightarrow> string list \<Rightarrow> doc \<Rightarrow> bool" where
  "term_holds L x ks d =
     (case x of None \<Rightarrow> True | Some p \<Rightarrow> p = [] \<or> list_ex (\<lambda>k. field_search L d k p) ks)"

text \<open>
  A listing: the response is the list of the serialized records \<open>items\<close>, which are the
  records of the collection that match the filter, arranged on the field \<open>k\<close>. Arranged
  ascending, the sort keys do not decrease along the list and of two records that both
  hold a timestamp in \<open>k\<close> the earlier comes first; descending, the keys do not increase
  and the later timestamp comes first.
\<close>

definition dates_in_order :: "string \<Rightarrow> doc \<Rightarrow> doc \<Rightarrow> bool" where
  "dates_in_order k x y =
     (case (map_of x k, map_of y k) of
        (Some (VDate a), Some (VDate b)) \<Rightarrow> a \<le> b
      | _ \<Rightarrow> True)"

definition ascending_in :: "string \<Rightarrow> doc list \<Rightarrow> bool" where
  "ascending_in k items =
     (sorted (map (field_key k) items) \<and> sorted_wrt (dates_in_order k) items)"

definition descending_in :: "string \<Rightarrow> doc list \<Rightarrow> bool" where
  "descending_in k items =
     (sorted (rev (map (field_key k) items)) \<and> sorted_wrt (\<lambda>x y. dates_in_order k y x) items)"

definition listing ::
  "pylib \<Rightarrow> error + doc option list \<Rightarrow> doc list \<Rightarrow> collection \<Rightarrow> query \<Rightarrow> bool" where
  "listing L response items c filt =
     (response = Inr (map (\<lambda>x. serialize L (Some x)) items)
      \<and> mset items = mset (filter (matches L filt) c))"

text \<open>
  A collection is well-keyed when every record carries an \<^verbatim>\<open>ObjectId\<close> under
  \<^verbatim>\<open>_id\<close> and no two records carry the same: what the store guarantees of the
  collections this program writes.
\<close>

definition has_object_id :: "doc \<Rightarrow> bool" where
  "has_object_id d = (case map_of d ''_id'' of Some (VOid i) \<Rightarrow> True | _ \<Rightarrow> False)"

definition well_keyed :: "collection \<Rightarrow> bool" where
  "well_keyed c = (list_all has_object_id c \<and> distinct (map (\<lambda>d. map_of d ''_id'') c))"

definition has_id :: "object_id \<Rightarrow> doc \<Rightarrow> bool" where
  "has_id i d = (map_of d ''_id'' = Some (VOid i))"

text \<open>The keys a content document may carry, besides the store's \<^verbatim>\<open>_id\<close>.\<close>

definition content_keys :: "string set" where
  "content_keys =
     {''title'', ''description'', ''owner_id'', ''owner_name'', ''location'', ''subject'',
      ''price'', ''condition'', ''url'', ''tags'', ''start_time'', ''end_time'',
      ''rate_per_hour'', ''availability'', ''status'', ''created_at'', ''updated_at''}"

text \<open>The declared fields of \<^verbatim>\<open>CreateItemRequest\<close>, in order.\<close>

definition model_keys :: "string list" where
  "model_keys = [''title'', ''description'', ''owner_id'', ''owner_name'', ''location'', ''subject'',
      ''price'', ''condition'', ''url'', ''tags'', ''start_time'', ''end_time'',
      ''rate_per_hour'', ''availability'', ''status'']"

text \<open>
  The document of a create request as the store keeps it: the document the handler
  built, under the generated \<^verbatim>\<open>_id\<close>.
\<close>

definition stored_doc :: "env \<Rightarrow> create_item_request \<Rightarrow> doc" where
  "stored_doc E payload = (''_id'', VOid (new_object_id E)) # new_doc E payload"

text \<open>The backing collections of the seven registered endpoints.\<close>

definition registered_collections :: "string set" where
  "registered_collections =
     {''beacon'', ''resource'', ''tutor'', ''club'', ''event'', ''lostfound'', ''market''}"

text \<open>
  A stored user clashes with a signup request when it has the request's student id or
  the request's email; a stored user is identified by a login identifier that equals its
  email or its student id.
\<close>

definition account_clash :: "signup_request \<Rightarrow> doc \<Rightarrow> bool" where
  "account_clash payload u =
     (map_of u ''student_id'' = Some (VStr (student_id payload))
      \<or> map_of u ''email'' = Some (VStr (email payload)))"

definition identifies :: "string \<Rightarrow> doc \<Rightarrow> bool" where
  "identifies ident u =
     (map_of u ''email'' = Some (VStr ident) \<or> map_of u ''student_id'' = Some (VStr ident))"

text \<open>
  Credentials are rejected when no stored user is identified by the identifier, or the
  first stored user that is identified does not hold the hash of the supplied password.
\<close>

definition credentials_rejected :: "pylib \<Rightarrow> login_request \<Rightarrow> collection \<Rightarrow> bool" where
  "credentials_rejected L payload users =
     (case find (identifies (login_identifier payload)) users of
        None \<Rightarrow> True
      | Some u \<Rightarrow>
          map_of u ''password_hash''
            \<noteq> Some (VStr (sha256_hexdigest L (login_password payload))))"

section \<open>Facts about dictionaries\<close>

lemma map_of_map_values:
  "map_of (map (\<lambda>(k, v). (k, f v)) d) k = map_option f (map_of d k)"
  by (induction d) auto

lemma serialize_value_fixed:
  "(\<And>t. v \<noteq> VDate t) \<Longrightarrow> serialize_value L v = v"
  by (cases v) auto

lemma serialize_value_idem: "serialize_value L (serialize_value L v) = serialize_value L v"
  by (cases v) auto

lemma map_of_renamed_id:
  "map_of (AList.update ''id'' v (AList.delete ''_id'' d)) k =
     (if k = ''id'' then Some v else if k = ''_id'' then None else map_of d k)"
  by (simp add: update_conv' delete_conv')

section \<open>The serializer\<close>

text \<open>
  Claim C8. \<open>serialize\<close> is a total function of its argument alone. It returns
  \<^verbatim>\<open>None\<close> for \<^verbatim>\<open>None\<close>. For a record it returns a record without the key \<^verbatim>\<open>_id\<close>,
  in which \<^verbatim>\<open>id\<close> holds the string form of the value \<^verbatim>\<open>_id\<close> had (for an object id,
  its hexadecimal digits), every field that held a timestamp holds its ISO rendering,
  every other field holds the value it had, \<^verbatim>\<open>None\<close> included, and no field is added:
  a key the record lacks is lacking in the result, \<^verbatim>\<open>id\<close> too unless the record has an
  \<^verbatim>\<open>_id\<close> to rename. The last part gives the result at every key.
\<close>

theorem serialize_contract:
  "serialize L None = None \<and>
   (\<exists>r. serialize L (Some d) = Some r \<and>
        map_of r ''_id'' = None \<and>
        (\<forall>i. map_of d ''_id'' = Some i \<longrightarrow> map_of r ''id'' = Some (VStr (py_str L i))) \<and>
        (\<forall>j. map_of d ''_id'' = Some (VOid j) \<longrightarrow> map_of r ''id'' = Some (VStr (hex j))) \<and>
        (\<forall>k t. k \<noteq> ''_id'' \<and> (k = ''id'' \<longrightarrow> map_of d ''_id'' = None)
                \<and> map_of d k = Some (VDate t)
           \<longrightarrow> map_of r k = Some (VStr (isoformat L t))) \<and>
        (\<forall>k v. k \<noteq> ''_id'' \<and> (k = ''id'' \<longrightarrow> map_of d ''_id'' = None)
                \<and> map_of d k = Some v \<and> (\<forall>t. v \<noteq> VDate t)
           \<longrightarrow> map_of r k = Some v) \<and>
        (\<forall>k. (k = ''id'' \<longrightarrow> map_of d ''_id'' = None) \<and> map_of d k = None
           \<longrightarrow> map_of r k = None) \<and>
        (\<forall>k. map_of r k =
           (if k = ''_id'' then None
            else if k = ''id'' \<and> map_of d ''_id'' \<noteq> None
            then map_option (\<lambda>i. VStr (py_str L i)) (map_of d ''_id'')
            else map_option (serialize_value L) (map_of d k))))"
proof (cases "map_of d ''_id''")
  case None
  then show ?thesis
    by (auto simp: serialize_def map_of_map_values serialize_value_fixed)
next
  case (Some i)
  then show ?thesis
    by (auto simp: serialize_def map_of_map_values map_of_renamed_id serialize_value_fixed)
qed

text \<open>
  The contract at a stored market item: the object id becomes the string \<^verbatim>\<open>id\<close>, the
  timestamp is rendered, the title and the null description pass through.
\<close>

theorem serialize_contract_witness:
  "map_of [(''_id'', VOid (ObjectId ''65a1b2c3d4e5f60718293a4b'')), (''title'', VStr ''Desk lamp''),
           (''description'', VNull), (''created_at'', VDate 0)] ''_id''
     = Some (VOid (ObjectId ''65a1b2c3d4e5f60718293a4b'')) \<and>
   (\<exists>r. serialize sample_lib
          (Some [(''_id'', VOid (ObjectId ''65a1b2c3d4e5f60718293a4b'')),
                 (''title'', VStr ''Desk lamp''), (''description'', VNull),
                 (''created_at'', VDate 0)]) = Some r \<and>
        map_of r ''_id'' = None \<and>
        map_of r ''id'' = Some (VStr ''65a1b2c3d4e5f60718293a4b'') \<and>
        map_of r ''created_at'' = Some (VStr (isoformat sample_lib 0)) \<and>
        map_of r ''title'' = Some (VStr ''Desk lamp'') \<and>
        map_of r ''description'' = Some VNull \<and>
        map_of r ''price'' = None)"
  using serialize_contract
    [of sample_lib "[(''_id'', VOid (ObjectId ''65a1b2c3d4e5f60718293a4b'')),
                     (''title'', VStr ''Desk lamp''), (''description'', VNull),
                     (''created_at'', VDate 0)]"]
  by (simp add: serialize_def)

text \<open>
  Claim C9. Serializing twice is serializing once: after the first pass the record has
  no \<^verbatim>\<open>_id\<close> and no timestamp left, so the second pass changes nothing.
\<close>

theorem serialize_idempotent: "serialize L (serialize L x) = serialize L x"
proof (cases x)
  case None
  then show ?thesis by (simp add: serialize_def)
next
  case (Some d)
  show ?thesis
  proof (cases "map_of d ''_id''")
    case None
    with Some show ?thesis
      by (auto simp: serialize_def map_of_map_values serialize_value_idem)
  next
    case (Some i)
    with \<open>x = Some d\<close> show ?thesis
      by (auto simp: serialize_def map_of_map_values map_of_renamed_id serialize_value_idem)
  qed
qed

section \<open>The filter builder\<close>

lemma matches_field_regex:
  "matches L (Field k (Regex p ''i'')) d = field_search L d k p"
  by (simp add: field_search_def)

text \<open>
  Claim C1, as stated, at \<^verbatim>\<open>location=""\<close> and a record without a \<^verbatim>\<open>location\<close>
  field: the specification's predicate rejects the record (a present term never matches
  a missing field), the filter that \<open>build_filter\<close> returns accepts it, because
  \<^verbatim>\<open>if location:\<close> is false for the empty string and no condition is added.
\<close>

theorem build_filter_counterexample:
  "matches sample_lib (build_filter None (Some '''') None) [(''title'', VStr ''Library'')]
   \<and> \<not> spec_matches None (Some '''') None [(''title'', VStr ''Library'')]"
  by (simp add: build_filter_def Let_def truthy_def spec_matches_def spec_term_def field_contains_def)

text \<open>
  Claim C1, amended. For every combination of the optional arguments, a record matches
  the filter that \<open>build_filter\<close> returns if and only if (the query is absent or empty,
  or the store's case-insensitive regular-expression search finds it in the stored title
  or in the stored description) and (the location is absent or empty, or it is found in
  the stored location) and (the subject is absent or empty, or it is found in the stored
  subject). A record that lacks the field does not match a term that is not empty. An
  empty string is treated as an absent argument: with \<^verbatim>\<open>location=""\<close> the filter
  selects every record of the collection.
\<close>

theorem build_filter_matches:
  "(matches L (build_filter q loc subj) d \<longleftrightarrow>
      term_holds L q [''title'', ''description''] d \<and> term_holds L loc [''location''] d
      \<and> term_holds L subj [''subject''] d)
   \<and> find_docs L (build_filter None (Some '''') None) c = c"
  by (cases q; cases loc; cases subj)
     (auto simp: build_filter_def Let_def truthy_def term_holds_def matches_field_regex
                 find_docs_def simp del: matches.simps(4))

text \<open>
  The equivalence at a marketplace record, searched for \<^verbatim>\<open>LAMP\<close> with an empty and
  with a non-matching location.
\<close>

theorem build_filter_matches_witness:
  "term_holds sample_lib (Some ''LAMP'') [''title'', ''description'']
       [(''title'', VStr ''Desk lamp''), (''location'', VStr ''Dorm 4'')]
   \<and> term_holds sample_lib (Some '''') [''location'']
       [(''title'', VStr ''Desk lamp''), (''location'', VStr ''Dorm 4'')]
   \<and> matches sample_lib (build_filter (Some ''LAMP'') (Some '''') None)
       [(''title'', VStr ''Desk lamp''), (''location'', VStr ''Dorm 4'')]
   \<and> \<not> matches sample_lib (build_filter (Some ''LAMP'') (Some ''library'') None)
       [(''title'', VStr ''Desk lamp''), (''location'', VStr ''Dorm 4'')]"
proof -
  let ?d = "[(''title'', VStr ''Desk lamp''), (''location'', VStr ''Dorm 4'')]"
  have a: "term_holds sample_lib (Some ''LAMP'') [''title'', ''description''] ?d"
    by code_simp
  have b: "term_holds sample_lib (Some '''') [''location''] ?d"
    by code_simp
  have c: "\<not> term_holds sample_lib (Some ''library'') [''location''] ?d"
    by code_simp
  have n: "term_holds sample_lib None [''subject''] ?d"
    by code_simp
  from a b c n build_filter_matches [of sample_lib "Some ''LAMP''" "Some ''''" None ?d]
    build_filter_matches [of sample_lib "Some ''LAMP''" "Some ''library''" None ?d]
  show ?thesis by blast
qed

section \<open>The order of listings\<close>

lemma sorted_keys_dates:
  "sorted (map (field_key k) ds) \<Longrightarrow> sorted_wrt (dates_in_order k) ds"
proof (induction ds)
  case Nil
  then show ?case by simp
next
  case (Cons d ds)
  have "dates_in_order k d y" if "y \<in> set ds" for y
  proof -
    from Cons.prems that have "field_key k d \<le> field_key k y" by auto
    then show ?thesis
      by (auto simp: dates_in_order_def field_key_def split: option.splits val.splits)
  qed
  with Cons show ?case by auto
qed

lemma sorted_rev_keys_dates:
  "sorted (rev (map (field_key k) ds)) \<Longrightarrow> sorted_wrt (\<lambda>x y. dates_in_order k y x) ds"
proof -
  assume "sorted (rev (map (field_key k) ds))"
  then have "sorted (map (field_key k) (rev ds))" by (simp add: rev_map)
  then have "sorted_wrt (dates_in_order k) (rev ds)" by (rule sorted_keys_dates)
  then show ?thesis by (simp add: sorted_wrt_rev)
qed

lemma sort_docs_ascending: "ascending_in k (sort_docs k 1 ds)"
  by (simp add: ascending_in_def sort_docs_def sorted_keys_dates)

lemma sort_docs_descending: "descending_in k (sort_docs k (- 1) ds)"
  by (simp add: descending_in_def sort_docs_def sorted_rev_keys_dates rev_map)

lemma mset_sort_docs: "mset (sort_docs k dir ds) = mset ds"
  by (simp add: sort_docs_def)

lemma listing_find_sorted:
  "listing L (Inr (map (\<lambda>x. serialize L (Some x)) (find_sorted L st coll filt k dir)))
     (find_sorted L st coll filt k dir) (st coll) filt"
  by (simp add: listing_def find_sorted_def find_docs_def mset_sort_docs)

text \<open>
  What the explicit handlers compute. \<open>list_events\<close> returns the serialized matching
  events arranged on \<^verbatim>\<open>start_time\<close> ascending; each of the six other explicit handlers
  returns the serialized matching records of its collection arranged on
  \<^verbatim>\<open>created_at\<close> descending.
\<close>

theorem list_order:
  "(let items = find_sorted L st ''event'' (build_filter q loc None) ''start_time'' 1
    in listing L (list_events L q loc (Some st)) items (st ''event'') (build_filter q loc None)
       \<and> ascending_in ''start_time'' items)
   \<and> (let items = find_sorted L st ''beacon'' (build_filter q loc subj) ''created_at'' (- 1)
    in listing L (list_beacons L q loc subj (Some st)) items (st ''beacon'') (build_filter q loc subj)
       \<and> descending_in ''created_at'' items)
   \<and> (let items = find_sorted L st ''resource'' (build_filter q loc subj) ''created_at'' (- 1)
    in listing L (list_resources L q loc subj (Some st)) items (st ''resource'') (build_filter q loc subj)
       \<and> descending_in ''created_at'' items)
   \<and> (let items = find_sorted L st ''tutor'' (build_filter q loc subj) ''created_at'' (- 1)
    in listing L (list_tutors L q loc subj (Some st)) items (st ''tutor'') (build_filter q loc subj)
       \<and> descending_in ''created_at'' items)
   \<and> (let items = find_sorted L st ''club'' (build_filter q loc None) ''created_at'' (- 1)
    in listing L (list_clubs L q loc (Some st)) items (st ''club'') (build_filter q loc None)
       \<and> descending_in ''created_at'' items)
   \<and> (let items = find_sorted L st ''lostfound'' (build_filter q loc subj) ''created_at'' (- 1)
    in listing L (list_lostfound L q loc subj (Some st)) items (st ''lostfound'') (build_filter q loc subj)
       \<and> descending_in ''created_at'' items)
   \<and> (let items = find_sorted L st ''market'' (build_filter q loc None) ''created_at'' (- 1)
    in listing L (list_market L q loc (Some st)) items (st ''market'') (build_filter q loc None)
       \<and> descending_in ''created_at'' items)"
  unfolding Let_def list_events_def list_beacons_def list_resources_def list_tutors_def
    list_clubs_def list_lostfound_def list_market_def option.case
  by (intro conjI listing_find_sorted)
     (simp_all add: find_sorted_def sort_docs_ascending sort_docs_descending)

text \<open>
  The sample store: the event without a start time comes first, then the events by
  start time; the beacons come newest first.
\<close>

theorem list_order_example:
  "ascending_in ''start_time''
     (find_sorted sample_lib sample_db ''event'' (build_filter None None None) ''start_time'' 1)
   \<and> descending_in ''created_at''
     (find_sorted sample_lib sample_db ''beacon'' (build_filter None None None) ''created_at'' (- 1))
   \<and> find_sorted sample_lib sample_db ''event'' (build_filter None None None) ''start_time'' 1
     = [sample_db ''event'' ! 2, sample_db ''event'' ! 1, sample_db ''event'' ! 0]
   \<and> find_sorted sample_lib sample_db ''beacon'' (build_filter None None None) ''created_at'' (- 1)
     = [sample_db ''beacon'' ! 1, sample_db ''beacon'' ! 0]
   \<and> list_events sample_lib None None (Some sample_db)
     = Inr [Some [(''title'', VStr ''Open mic''), (''created_at'', VStr ''isoformat''),
                  (''updated_at'', VStr ''isoformat''),
                  (''id'', VStr ''0000000000000000000000e3'')],
            Some [(''title'', VStr ''Chess night''), (''start_time'', VStr ''isoformat''),
                  (''created_at'', VStr ''isoformat''), (''updated_at'', VStr ''isoformat''),
                  (''id'', VStr ''0000000000000000000000e2'')],
            Some [(''title'', VStr ''Hackathon''), (''location'', VStr ''Library''),
                  (''start_time'', VStr ''isoformat''), (''created_at'', VStr ''isoformat''),
                  (''updated_at'', VStr ''isoformat''),
                  (''id'', VStr ''0000000000000000000000e1'')]]"
proof -
  have a: "find_sorted sample_lib sample_db ''event'' (build_filter None None None) ''start_time'' 1
     = [sample_db ''event'' ! 2, sample_db ''event'' ! 1, sample_db ''event'' ! 0]"
    by code_simp
  have b: "find_sorted sample_lib sample_db ''beacon'' (build_filter None None None) ''created_at'' (- 1)
     = [sample_db ''beacon'' ! 1, sample_db ''beacon'' ! 0]"
    by code_simp
  have c: "list_events sample_lib None None (Some sample_db)
     = Inr [Some [(''title'', VStr ''Open mic''), (''created_at'', VStr ''isoformat''),
                  (''updated_at'', VStr ''isoformat''),
                  (''id'', VStr ''0000000000000000000000e3'')],
            Some [(''title'', VStr ''Chess night''), (''start_time'', VStr ''isoformat''),
                  (''created_at'', VStr ''isoformat''), (''updated_at'', VStr ''isoformat''),
                  (''id'', VStr ''0000000000000000000000e2'')],
            Some [(''title'', VStr ''Hackathon''), (''location'', VStr ''Library''),
                  (''start_time'', VStr ''isoformat''), (''created_at'', VStr ''isoformat''),
                  (''updated_at'', VStr ''isoformat''),
                  (''id'', VStr ''0000000000000000000000e1'')]]"
    by code_simp
  from list_order [of sample_lib sample_db None None None]
  have "ascending_in ''start_time''
          (find_sorted sample_lib sample_db ''event'' (build_filter None None None) ''start_time'' 1)"
    and "descending_in ''created_at''
          (find_sorted sample_lib sample_db ''beacon'' (build_filter None None None) ''created_at'' (- 1))"
    by (simp_all add: Let_def)
  with a b c show ?thesis by blast
qed

text \<open>
  Claim C2, at \<^verbatim>\<open>GET /events\<close> and \<^verbatim>\<open>GET /beacons\<close> on the sample store. The first route
  registered on each list path is \<^verbatim>\<open>list_items\<close>, so the list operation of the endpoint
  answers with the dictionary \<^verbatim>\<open>{"detail": "Improper call"}\<close> and returns no record,
  sorted or not; the explicit handler of the endpoint, which would return the three
  events by start time, is registered second on the path and is not reached.
\<close>

theorem list_endpoint_improper_call:
  "list_endpoint sample_lib ''events'' None None None (Some sample_db)
     = Some (Inr (Record [(''detail'', VStr ''Improper call'')]))
   \<and> list_endpoint sample_lib ''beacons'' None None None (Some sample_db)
     = Some (Inr (Record [(''detail'', VStr ''Improper call'')]))
   \<and> map_of get_routes ''/events'' = Some ListItems
   \<and> explicit_list_handler sample_lib ''events'' None None None (Some sample_db)
     = Some (Inr [Some [(''title'', VStr ''Open mic''), (''created_at'', VStr ''isoformat''),
                        (''updated_at'', VStr ''isoformat''),
                        (''id'', VStr ''0000000000000000000000e3'')],
                  Some [(''title'', VStr ''Chess night''), (''start_time'', VStr ''isoformat''),
                        (''created_at'', VStr ''isoformat''), (''updated_at'', VStr ''isoformat''),
                        (''id'', VStr ''0000000000000000000000e2'')],
                  Some [(''title'', VStr ''Hackathon''), (''location'', VStr ''Library''),
                        (''start_time'', VStr ''isoformat''), (''created_at'', VStr ''isoformat''),
                        (''updated_at'', VStr ''isoformat''),
                        (''id'', VStr ''0000000000000000000000e1'')]])"
  by code_simp

section \<open>Creating an item\<close>

lemma model_dump_keys: "map fst (model_dump p) = model_keys"
  by (simp add: model_dump_def model_keys_def)

lemma distinct_model_keys: "distinct model_keys"
  by (simp add: model_keys_def)

lemma map_of_filter_absent:
  "k \<notin> fst ` set xs \<Longrightarrow> map_of (filter P xs) k = None"
  by (induction xs) auto

lemma map_of_filter_values:
  "distinct (map fst xs) \<Longrightarrow> (k, v) \<in> set xs
     \<Longrightarrow> map_of (filter (\<lambda>(k, v). Q v) xs) k = (if Q v then Some v else None)"
proof (induction xs)
  case Nil
  then show ?case by simp
next
  case (Cons x xs)
  obtain k' v' where x: "x = (k', v')" by (cases x)
  show ?case
  proof (cases "k' = k")
    case True
    with Cons.prems x have "v' = v" by (auto simp: image_iff)
    moreover from Cons.prems x True have "k \<notin> fst ` set xs" by simp
    ultimately show ?thesis using x True by (simp add: map_of_filter_absent)
  next
    case False
    with Cons x show ?thesis by auto
  qed
qed

lemma keys_filter_values:
  "fst ` set (filter (\<lambda>(k, v). Q v) xs) = {k. \<exists>v. (k, v) \<in> set xs \<and> Q v}"
  by (auto simp: image_iff)

lemma new_doc_keys:
  "fst ` set (new_doc E p)
     = {''created_at'', ''updated_at''} \<union> {k. \<exists>v. (k, v) \<in> set (model_dump p) \<and> v \<noteq> VNull}"
  unfolding new_doc_def Let_def dom_update keys_filter_values by blast

lemma model_dump_key_in: "(k, v) \<in> set (model_dump p) \<Longrightarrow> k \<in> set model_keys"
  using model_dump_keys [of p] by (metis fst_conv image_eqI set_map)

lemma new_doc_subset: "fst ` set (new_doc E p) \<subseteq> content_keys"
proof -
  have "set model_keys \<subseteq> content_keys"
    by (simp add: model_keys_def content_keys_def)
  moreover have "{''created_at'', ''updated_at''} \<subseteq> content_keys"
    by (simp add: content_keys_def)
  ultimately show ?thesis
    unfolding new_doc_keys using model_dump_key_in by blast
qed

lemma new_doc_no_id: "map_of (new_doc E p) ''_id'' = None"
proof -
  have "''_id'' \<notin> content_keys" by (simp add: content_keys_def)
  with new_doc_subset [of E p] have "''_id'' \<notin> fst ` set (new_doc E p)" by blast
  then show ?thesis by (simp add: map_of_eq_None_iff)
qed

lemma new_doc_stamps:
  "map_of (new_doc E p) ''created_at'' = Some (VDate (utcnow1 E))"
  "map_of (new_doc E p) ''updated_at'' = Some (VDate (utcnow2 E))"
  by (simp_all add: new_doc_def Let_def update_conv')

lemma new_doc_title: "map_of (new_doc E p) ''title'' = Some (VStr (title p))"
  by (simp add: new_doc_def Let_def update_conv' model_dump_def)

lemma new_doc_field:
  assumes "(k, v) \<in> set (model_dump p)"
  shows "map_of (new_doc E p) k = (if v = VNull then None else Some v)"
proof -
  from assms have "k \<in> set model_keys" by (rule model_dump_key_in)
  then have k: "k \<noteq> ''created_at''" "k \<noteq> ''updated_at''"
    by (auto simp: model_keys_def)
  have "distinct (map fst (model_dump p))"
    by (simp add: model_dump_keys distinct_model_keys)
  from map_of_filter_values [OF this assms, of "\<lambda>v. v \<noteq> VNull"] k
  show ?thesis by (simp add: new_doc_def Let_def update_conv')
qed

lemma find_append_last:
  "\<not> list_ex P xs \<Longrightarrow> P x \<Longrightarrow> find P (xs @ [x]) = Some x"
  by (induction xs) auto

lemma insert_one_fresh:
  "map_of d ''_id'' = None \<Longrightarrow> \<not> list_ex (has_id i) c
     \<Longrightarrow> insert_one c d i = Inr (c @ [(''_id'', VOid i) # d], VOid i)"
  by (simp add: insert_one_def has_id_def [abs_def])

lemma insert_one_result:
  "map_of d ''_id'' = None \<Longrightarrow> insert_one c d i = Inr (c', v)
     \<Longrightarrow> c' = c @ [(''_id'', VOid i) # d] \<and> v = VOid i \<and> \<not> list_ex (has_id i) c"
  by (auto simp: insert_one_def has_id_def [abs_def] split: if_splits)

lemma insert_one_error:
  "insert_one c d i = Inl e \<Longrightarrow> e = DuplicateKeyError"
  by (auto simp: insert_one_def Let_def split: if_splits option.splits prod.splits)

lemma reread_stored:
  "\<not> list_ex (has_id i) c
     \<Longrightarrow> find_one L (Dict [Field ''_id'' (Eq (VOid i))]) (c @ [(''_id'', VOid i) # d])
         = Some ((''_id'', VOid i) # d)"
  unfolding find_one_def
  by (rule find_append_last) (simp_all add: has_id_def list_ex_iff)

lemma serialize_shape:
  assumes "map_of d ''_id'' = Some i"
  shows "\<exists>r. serialize L (Some d) = Some r \<and>
           (\<forall>k. map_of r k =
              (if k = ''id'' then Some (VStr (py_str L i)) else if k = ''_id'' then None
               else map_option (serialize_value L) (map_of d k)))"
  using assms by (simp add: serialize_def map_of_map_values map_of_renamed_id)

text \<open>
  Claim C3. For a registered endpoint, a configured store and a generated id that the
  collection does not hold yet, \<open>create_item\<close> appends one document to the endpoint's
  collection and returns the serialization of what \<open>find_one\<close> reads back under the
  generated id, which is that document. Its keys are \<^verbatim>\<open>_id\<close>, \<^verbatim>\<open>created_at\<close>,
  \<^verbatim>\<open>updated_at\<close> and the payload fields that are not null; each such field holds the
  payload's value and a null field is absent. The response carries \<^verbatim>\<open>id\<close> as the
  string of the generated id and \<^verbatim>\<open>created_at\<close> in ISO form.
\<close>

theorem create_item_stores:
  assumes "map_of ALLOWED_COLLECTIONS endpoint = Some coll"
    and "\<not> list_ex (has_id (new_object_id E)) (st coll)"
  shows "create_item L E endpoint payload (Some st)
           = (Inr (serialize L (Some (stored_doc E payload))),
              Some (st(coll := st coll @ [stored_doc E payload])))
     \<and> find_one L (Dict [Field ''_id'' (Eq (VOid (new_object_id E)))])
           (st coll @ [stored_doc E payload]) = Some (stored_doc E payload)
     \<and> fst ` set (stored_doc E payload)
         = {''_id'', ''created_at'', ''updated_at''}
           \<union> {k. \<exists>v. (k, v) \<in> set (model_dump payload) \<and> v \<noteq> VNull}
     \<and> (\<forall>k v. (k, v) \<in> set (model_dump payload)
           \<longrightarrow> map_of (stored_doc E payload) k = (if v = VNull then None else Some v))
     \<and> map_of (stored_doc E payload) ''created_at'' = Some (VDate (utcnow1 E))
     \<and> map_of (stored_doc E payload) ''updated_at'' = Some (VDate (utcnow2 E))
     \<and> (\<exists>r. serialize L (Some (stored_doc E payload)) = Some r
           \<and> map_of r ''id'' = Some (VStr (hex (new_object_id E)))
           \<and> map_of r ''created_at'' = Some (VStr (isoformat L (utcnow1 E)))
           \<and> (\<forall>k v. (k, v) \<in> set (model_dump payload)
                 \<longrightarrow> map_of r k = (if v = VNull then None else Some (serialize_value L v))))"
proof -
  let ?new = "new_object_id E"
  let ?s = "stored_doc E payload"
  have s: "?s = (''_id'', VOid ?new) # new_doc E payload"
    by (simp add: stored_doc_def)
  have ins: "insert_one (st coll) (new_doc E payload) ?new = Inr (st coll @ [?s], VOid ?new)"
    using assms(2) by (simp add: insert_one_fresh new_doc_no_id s)
  have reread: "find_one L (Dict [Field ''_id'' (Eq (VOid ?new))]) (st coll @ [?s]) = Some ?s"
    unfolding s using assms(2) by (rule reread_stored)
  have c1: "create_item L E endpoint payload (Some st)
           = (Inr (serialize L (Some ?s)), Some (st(coll := st coll @ [?s])))"
    using assms(1) ins reread by (simp add: create_item_def Let_def)
  have c3: "fst ` set ?s = {''_id'', ''created_at'', ''updated_at''}
           \<union> {k. \<exists>v. (k, v) \<in> set (model_dump payload) \<and> v \<noteq> VNull}"
    by (simp add: s new_doc_keys)
  have not_id: "k \<noteq> ''_id'' \<and> k \<noteq> ''id''" if "(k, v) \<in> set (model_dump payload)" for k v
    using model_dump_key_in [OF that] by (auto simp: model_keys_def)
  have c4: "map_of ?s k = (if v = VNull then None else Some v)"
    if "(k, v) \<in> set (model_dump payload)" for k v
    using that not_id [OF that] by (simp add: s new_doc_field)
  have c5: "map_of ?s ''created_at'' = Some (VDate (utcnow1 E))"
    "map_of ?s ''updated_at'' = Some (VDate (utcnow2 E))"
    by (simp_all add: s new_doc_stamps)
  have sid: "map_of ?s ''_id'' = Some (VOid ?new)" by (simp add: s)
  from serialize_shape [OF sid, of L] obtain r where r:
    "serialize L (Some ?s) = Some r"
    "\<And>k. map_of r k = (if k = ''id'' then Some (VStr (hex ?new)) else if k = ''_id'' then None
        else map_option (serialize_value L) (map_of ?s k))"
    by auto
  have c6: "map_of r k = (if v = VNull then None else Some (serialize_value L v))"
    if "(k, v) \<in> set (model_dump payload)" for k v
    using not_id [OF that] c4 [OF that] by (simp add: r(2))
  have c7: "map_of r ''created_at'' = Some (VStr (isoformat L (utcnow1 E)))"
    by (simp add: r(2) c5)
  have c8: "map_of r ''id'' = Some (VStr (hex ?new))" by (simp add: r(2))
  from c1 reread c3 c4 c5 r(1) c6 c7 c8 show ?thesis by blast
qed

text \<open>
  The specification's example: \<^verbatim>\<open>create("market", {title: "Desk lamp", price: 10})\<close>
  returns \<^verbatim>\<open>title\<close>, \<^verbatim>\<open>price\<close>, the two timestamps as strings and \<^verbatim>\<open>id\<close>, and no
  \<^verbatim>\<open>description\<close>.
\<close>

theorem create_item_stores_witness:
  "map_of ALLOWED_COLLECTIONS ''market'' = Some ''market''
   \<and> \<not> list_ex (has_id (new_object_id sample_env)) (sample_db ''market'')
   \<and> create_item sample_lib sample_env ''market'' sample_payload (Some sample_db)
       = (Inr (Some [(''title'', VStr ''Desk lamp''), (''price'', VNum 10),
                     (''created_at'', VStr ''isoformat''), (''updated_at'', VStr ''isoformat''),
                     (''id'', VStr ''0000000000000000000000ff'')]),
          Some (sample_db(''market'' := sample_db ''market'' @ [stored_doc sample_env sample_payload])))
   \<and> map_of [(''title'', VStr ''Desk lamp''), (''price'', VNum 10),
              (''created_at'', VStr ''isoformat''), (''updated_at'', VStr ''isoformat''),
              (''id'', VStr ''0000000000000000000000ff'')] ''description'' = None"
proof -
  have h1: "map_of ALLOWED_COLLECTIONS ''market'' = Some ''market''"
    by code_simp
  have h2: "\<not> list_ex (has_id (new_object_id sample_env)) (sample_db ''market'')"
    by code_simp
  have e: "serialize sample_lib (Some (stored_doc sample_env sample_payload))
      = Some [(''title'', VStr ''Desk lamp''), (''price'', VNum 10),
              (''created_at'', VStr ''isoformat''), (''updated_at'', VStr ''isoformat''),
              (''id'', VStr ''0000000000000000000000ff'')]"
    by code_simp
  have "create_item sample_lib sample_env ''market'' sample_payload (Some sample_db)
       = (Inr (serialize sample_lib (Some (stored_doc sample_env sample_payload))),
          Some (sample_db(''market'' := sample_db ''market'' @ [stored_doc sample_env sample_payload])))"
    using create_item_stores
      [where endpoint = "''market''" and coll = "''market''" and st = sample_db
         and E = sample_env and L = sample_lib and payload = sample_payload] h1 h2
    by blast
  with h1 h2 e show ?thesis by simp
qed

lemma create_item_success:
  assumes "create_item L E endpoint payload db = (Inr r, db')"
  shows "\<exists>st coll. db = Some st \<and> map_of ALLOWED_COLLECTIONS endpoint = Some coll
           \<and> \<not> list_ex (has_id (new_object_id E)) (st coll)
           \<and> db' = Some (st(coll := st coll @ [(''_id'', VOid (new_object_id E)) # new_doc E payload]))"
proof -
  from assms obtain coll where coll: "map_of ALLOWED_COLLECTIONS endpoint = Some coll"
    by (auto simp: create_item_def split: option.splits)
  from assms coll obtain st where st: "db = Some st"
    by (auto simp: create_item_def split: option.splits)
  from assms coll st obtain c v where
    ins: "insert_one (st coll) (new_doc E payload) (new_object_id E) = Inr (c, v)"
    and db': "db' = Some (st(coll := c))"
    by (auto simp: create_item_def Let_def split: sum.splits)
  from insert_one_result [OF new_doc_no_id ins] coll st db' show ?thesis by simp
qed

text \<open>
  Claim C10. The document that \<open>create_item\<close> builds has its keys among the fifteen
  declared fields, \<^verbatim>\<open>created_at\<close> and \<^verbatim>\<open>updated_at\<close>, and always has \<^verbatim>\<open>title\<close>,
  \<^verbatim>\<open>created_at\<close> and \<^verbatim>\<open>updated_at\<close>; whenever \<open>create_item\<close> succeeds, what it
  added to the store is that document under the generated \<^verbatim>\<open>_id\<close>. A key outside the
  request model cannot occur: the payload is a \<open>create_item_request\<close>.
\<close>

theorem created_document_keys:
  "fst ` set (new_doc E payload) \<subseteq> content_keys
   \<and> {''title'', ''created_at'', ''updated_at''} \<subseteq> fst ` set (new_doc E payload)
   \<and> (\<forall>r db'. create_item L E endpoint payload db = (Inr r, db') \<longrightarrow>
         (\<exists>st coll. db = Some st \<and> map_of ALLOWED_COLLECTIONS endpoint = Some coll
            \<and> db' = Some (st(coll := st coll
                  @ [(''_id'', VOid (new_object_id E)) # new_doc E payload]))))"
proof -
  have "''title'' \<in> fst ` set (new_doc E payload)"
    using new_doc_title [of E payload] by (rule map_of_SomeD [THEN image_eqI [rotated]]) simp
  moreover have "''created_at'' \<in> fst ` set (new_doc E payload)"
    "''updated_at'' \<in> fst ` set (new_doc E payload)"
    by (simp_all add: new_doc_keys)
  moreover have "\<exists>st coll. db = Some st \<and> map_of ALLOWED_COLLECTIONS endpoint = Some coll
            \<and> db' = Some (st(coll := st coll
                  @ [(''_id'', VOid (new_object_id E)) # new_doc E payload]))"
    if "create_item L E endpoint payload db = (Inr r, db')" for r db'
    using create_item_success [OF that] by blast
  ultimately show ?thesis
    using new_doc_subset [of E payload] by simp
qed

text \<open>The same for the desk lamp.\<close>

theorem created_document_keys_witness:
  "create_item sample_lib sample_env ''market'' sample_payload (Some sample_db)
     = (Inr (Some [(''title'', VStr ''Desk lamp''), (''price'', VNum 10),
                   (''created_at'', VStr ''isoformat''), (''updated_at'', VStr ''isoformat''),
                   (''id'', VStr ''0000000000000000000000ff'')]),
        snd (create_item sample_lib sample_env ''market'' sample_payload (Some sample_db)))
   \<and> (\<exists>st coll. Some sample_db = Some st \<and> map_of ALLOWED_COLLECTIONS ''market'' = Some coll
        \<and> snd (create_item sample_lib sample_env ''market'' sample_payload (Some sample_db))
          = Some (st(coll := st coll
               @ [(''_id'', VOid (new_object_id sample_env)) # new_doc sample_env sample_payload])))
   \<and> new_doc sample_env sample_payload
       = [(''title'', VStr ''Desk lamp''), (''price'', VNum 10), (''created_at'', VDate 1000),
          (''updated_at'', VDate 1001)]
   \<and> fst ` set (new_doc sample_env sample_payload) \<subseteq> content_keys"
proof -
  have d: "new_doc sample_env sample_payload
       = [(''title'', VStr ''Desk lamp''), (''price'', VNum 10), (''created_at'', VDate 1000),
          (''updated_at'', VDate 1001)]"
    by code_simp
  have "fst (create_item sample_lib sample_env ''market'' sample_payload (Some sample_db))
     = Inr (Some [(''title'', VStr ''Desk lamp''), (''price'', VNum 10),
                   (''created_at'', VStr ''isoformat''), (''updated_at'', VStr ''isoformat''),
                   (''id'', VStr ''0000000000000000000000ff'')])"
    by code_simp
  then have c: "create_item sample_lib sample_env ''market'' sample_payload (Some sample_db)
     = (Inr (Some [(''title'', VStr ''Desk lamp''), (''price'', VNum 10),
                   (''created_at'', VStr ''isoformat''), (''updated_at'', VStr ''isoformat''),
                   (''id'', VStr ''0000000000000000000000ff'')]),
        snd (create_item sample_lib sample_env ''market'' sample_payload (Some sample_db)))"
    by (metis prod.collapse)
  from created_document_keys
    [of sample_env sample_payload sample_lib "''market''" "Some sample_db"] c d
  show ?thesis by blast
qed

section \<open>The registry as the boundary\<close>

lemma allowed_collection:
  "map_of ALLOWED_COLLECTIONS e = Some c \<Longrightarrow> c \<in> registered_collections"
  by (auto simp: ALLOWED_COLLECTIONS_def registered_collections_def split: if_splits)

lemma allowed_endpoints:
  "fst ` set ALLOWED_COLLECTIONS
     = {''beacons'', ''resources'', ''tutors'', ''clubs'', ''events'', ''lostfound'', ''market''}"
  by (simp add: ALLOWED_COLLECTIONS_def)

lemma unknown_endpoint: "e \<notin> fst ` set ALLOWED_COLLECTIONS \<Longrightarrow> map_of ALLOWED_COLLECTIONS e = None"
  by (simp add: map_of_eq_None_iff)

lemma create_item_frame:
  assumes "create_item L E endpoint payload (Some st) = (r, Some st')"
    and "c \<notin> registered_collections"
  shows "st' c = st c"
proof (cases "map_of ALLOWED_COLLECTIONS endpoint")
  case None
  with assms(1) show ?thesis by (simp add: create_item_def)
next
  case (Some coll)
  then have "coll \<in> registered_collections" by (rule allowed_collection)
  with assms(2) have "c \<noteq> coll" by auto
  with assms(1) Some show ?thesis
    by (auto simp: create_item_def Let_def split: sum.splits)
qed

lemma delete_item_frame:
  assumes "delete_item L endpoint item_id (Some st) = (r, Some st')"
    and "c \<notin> registered_collections"
  shows "st' c = st c"
proof (cases "map_of ALLOWED_COLLECTIONS endpoint")
  case None
  with assms(1) show ?thesis by (simp add: delete_item_def)
next
  case (Some coll)
  then have "coll \<in> registered_collections" by (rule allowed_collection)
  with assms(2) have "c \<noteq> coll" by auto
  with assms(1) Some show ?thesis
    by (auto simp: delete_item_def Let_def split: sum.splits prod.splits if_splits)
qed

lemma create_item_reads:
  assumes "\<forall>c\<in>registered_collections. st1 c = st2 c"
  shows "fst (create_item L E endpoint payload (Some st1))
           = fst (create_item L E endpoint payload (Some st2))"
proof (cases "map_of ALLOWED_COLLECTIONS endpoint")
  case None
  then show ?thesis by (simp add: create_item_def)
next
  case (Some coll)
  then have "coll \<in> registered_collections" by (rule allowed_collection)
  with assms have "st1 coll = st2 coll" by (rule bspec)
  with Some show ?thesis
    by (simp add: create_item_def Let_def split: sum.splits)
qed

lemma delete_item_reads:
  assumes "\<forall>c\<in>registered_collections. st1 c = st2 c"
  shows "fst (delete_item L endpoint item_id (Some st1))
           = fst (delete_item L endpoint item_id (Some st2))"
proof (cases "map_of ALLOWED_COLLECTIONS endpoint")
  case None
  then show ?thesis by (simp add: delete_item_def)
next
  case (Some coll)
  then have "coll \<in> registered_collections" by (rule allowed_collection)
  with assms have "st1 coll = st2 coll" by (rule bspec)
  with Some show ?thesis
    by (simp add: delete_item_def Let_def split: sum.splits prod.splits)
qed

lemma explicit_list_handler_reads:
  assumes "\<forall>c\<in>registered_collections. st1 c = st2 c"
  shows "explicit_list_handler L endpoint q loc subj (Some st1)
           = explicit_list_handler L endpoint q loc subj (Some st2)"
proof -
  from assms have "st1 ''beacon'' = st2 ''beacon''" "st1 ''resource'' = st2 ''resource''"
    "st1 ''tutor'' = st2 ''tutor''" "st1 ''club'' = st2 ''club''" "st1 ''event'' = st2 ''event''"
    "st1 ''lostfound'' = st2 ''lostfound''" "st1 ''market'' = st2 ''market''"
    by (simp_all add: registered_collections_def)
  then show ?thesis
    by (simp add: explicit_list_handler_def list_beacons_def list_resources_def list_tutors_def
        list_clubs_def list_events_def list_lostfound_def list_market_def find_sorted_def)
qed

lemma first_route: "map_of get_routes p = Some h \<Longrightarrow> h = ListItems"
  by (simp add: get_routes_def split: if_splits)

lemma list_endpoint_answer:
  "list_endpoint L endpoint q loc subj db = None
   \<or> list_endpoint L endpoint q loc subj db = Some (Inr (Record (list_items q loc subj)))"
proof (cases "map_of get_routes (''/'' @ endpoint)")
  case None
  then show ?thesis by (simp add: list_endpoint_def)
next
  case (Some h)
  then have "h = ListItems" by (rule first_route)
  with Some show ?thesis by (simp add: list_endpoint_def)
qed

lemma list_endpoint_reads:
  "list_endpoint L endpoint q loc subj (Some st1) = list_endpoint L endpoint q loc subj (Some st2)"
proof (cases "map_of get_routes (''/'' @ endpoint)")
  case None
  then show ?thesis by (simp add: list_endpoint_def)
next
  case (Some h)
  then have "h = ListItems" by (rule first_route)
  with Some show ?thesis by (simp add: list_endpoint_def)
qed

text \<open>
  Claim C7. For an endpoint name outside the seven registered ones, \<open>create_item\<close> and
  \<open>delete_item\<close> fail with 404 and leave the store as it is, configured or not. For
  every endpoint name, create and delete leave every collection other than the seven
  backing collections unchanged, and the responses of create, delete and list (of the
  route that answers, and of the explicit list handler as well) are the same in two
  stores that agree on the seven backing collections; \<^verbatim>\<open>user\<close> and \<^verbatim>\<open>session\<close> are
  not among them.
\<close>

theorem unknown_endpoint_unreachable:
  "fst ` set ALLOWED_COLLECTIONS
     = {''beacons'', ''resources'', ''tutors'', ''clubs'', ''events'', ''lostfound'', ''market''}
   \<and> ''user'' \<notin> registered_collections \<and> ''session'' \<notin> registered_collections
   \<and> (endpoint \<notin> fst ` set ALLOWED_COLLECTIONS
      \<longrightarrow> create_item L E endpoint payload db = (Inl (HTTPException 404 ''Unknown endpoint''), db)
        \<and> delete_item L endpoint item_id db = (Inl (HTTPException 404 ''Unknown endpoint''), db))
   \<and> (\<forall>st r st' c. create_item L E endpoint payload (Some st) = (r, Some st')
          \<and> c \<notin> registered_collections \<longrightarrow> st' c = st c)
   \<and> (\<forall>st r st' c. delete_item L endpoint item_id (Some st) = (r, Some st')
          \<and> c \<notin> registered_collections \<longrightarrow> st' c = st c)
   \<and> (\<forall>st1 st2. (\<forall>c\<in>registered_collections. st1 c = st2 c)
        \<longrightarrow> fst (create_item L E endpoint payload (Some st1))
              = fst (create_item L E endpoint payload (Some st2))
          \<and> fst (delete_item L endpoint item_id (Some st1))
              = fst (delete_item L endpoint item_id (Some st2))
          \<and> list_endpoint L endpoint q loc subj (Some st1)
              = list_endpoint L endpoint q loc subj (Some st2)
          \<and> explicit_list_handler L endpoint q loc subj (Some st1)
              = explicit_list_handler L endpoint q loc subj (Some st2))"
proof -
  have a: "create_item L E endpoint payload db = (Inl (HTTPException 404 ''Unknown endpoint''), db)
        \<and> delete_item L endpoint item_id db = (Inl (HTTPException 404 ''Unknown endpoint''), db)"
    if "endpoint \<notin> fst ` set ALLOWED_COLLECTIONS"
    using unknown_endpoint [OF that] by (simp add: create_item_def delete_item_def)
  have b: "''user'' \<notin> registered_collections" "''session'' \<notin> registered_collections"
    by (simp_all add: registered_collections_def)
  have c: "st' c = st c"
    if "create_item L E endpoint payload (Some st) = (r, Some st') \<and> c \<notin> registered_collections"
    for st r st' c
    using that create_item_frame by blast
  have d: "st' c = st c"
    if "delete_item L endpoint item_id (Some st) = (r, Some st') \<and> c \<notin> registered_collections"
    for st r st' c
    using that delete_item_frame by blast
  have e: "fst (create_item L E endpoint payload (Some st1))
              = fst (create_item L E endpoint payload (Some st2))
          \<and> fst (delete_item L endpoint item_id (Some st1))
              = fst (delete_item L endpoint item_id (Some st2))
          \<and> list_endpoint L endpoint q loc subj (Some st1)
              = list_endpoint L endpoint q loc subj (Some st2)
          \<and> explicit_list_handler L endpoint q loc subj (Some st1)
              = explicit_list_handler L endpoint q loc subj (Some st2)"
    if "\<forall>c\<in>registered_collections. st1 c = st2 c" for st1 st2
    using create_item_reads [OF that] delete_item_reads [OF that]
      explicit_list_handler_reads [OF that] list_endpoint_reads [of L endpoint q loc subj st1 st2]
    by simp
  from allowed_endpoints a b c d e show ?thesis by blast
qed

text \<open>
  The name \<^verbatim>\<open>user\<close> is not an endpoint: neither request touches the sample store.
\<close>

theorem unknown_endpoint_unreachable_witness:
  "''user'' \<notin> fst ` set ALLOWED_COLLECTIONS
   \<and> create_item sample_lib sample_env ''user'' sample_payload (Some sample_db)
       = (Inl (HTTPException 404 ''Unknown endpoint''), Some sample_db)
   \<and> delete_item sample_lib ''user'' ''0000000000000000000000a1'' (Some sample_db)
       = (Inl (HTTPException 404 ''Unknown endpoint''), Some sample_db)"
proof -
  have h: "''user'' \<notin> fst ` set ALLOWED_COLLECTIONS"
    by (simp add: ALLOWED_COLLECTIONS_def)
  from unknown_endpoint_unreachable
    [where endpoint = "''user''" and L = sample_lib and E = sample_env
       and payload = sample_payload and db = "Some sample_db"
       and item_id = "''0000000000000000000000a1''"] h
  show ?thesis by blast
qed

section \<open>Deleting an item\<close>

lemma remove_first_none: "\<not> list_ex P xs \<Longrightarrow> remove_first P xs = (xs, 0)"
  by (induction xs) auto

lemma remove_first_count: "list_ex P xs \<Longrightarrow> snd (remove_first P xs) = 1"
  by (induction xs) (auto split: prod.splits)

lemma remove_first_distinct:
  "distinct (map f xs) \<Longrightarrow> list_ex (\<lambda>x. f x = v) xs
     \<Longrightarrow> fst (remove_first (\<lambda>x. f x = v) xs) = filter (\<lambda>x. f x \<noteq> v) xs"
proof (induction xs)
  case Nil
  then show ?case by simp
next
  case (Cons x xs)
  show ?case
  proof (cases "f x = v")
    case True
    from Cons.prems(1) have "f x \<notin> f ` set xs" by simp
    with True have "\<forall>y\<in>set xs. f y \<noteq> v" by blast
    then have "filter (\<lambda>x. f x \<noteq> v) xs = xs" by (simp add: filter_id_conv)
    with True show ?thesis by simp
  next
    case False
    with Cons show ?thesis by (auto split: prod.splits)
  qed
qed

lemma remove_first_length:
  "list_ex P xs \<Longrightarrow> length (fst (remove_first P xs)) + 1 = length xs"
  by (induction xs) (auto split: prod.splits)

lemma has_id_key: "has_id i = (\<lambda>d. map_of d ''_id'' = Some (VOid i))"
  by (simp add: has_id_def fun_eq_iff)

lemma matches_id_fun: "matches L (Dict [Field ''_id'' (Eq (VOid i))]) = has_id i"
  by (simp add: fun_eq_iff has_id_def)

lemma delete_one_id:
  "delete_one L (Dict [Field ''_id'' (Eq (VOid i))]) c = remove_first (has_id i) c"
  by (simp only: delete_one_def matches_id_fun)

lemma delete_item_eval:
  assumes "map_of ALLOWED_COLLECTIONS endpoint = Some coll"
  shows "delete_item L endpoint item_id (Some st) =
     (case object_id_of_str item_id of
        None \<Rightarrow> (Inl (HTTPException 400 ''Invalid id format''), Some st)
      | Some i \<Rightarrow>
          if list_ex (has_id i) (st coll)
          then (Inr [(''success'', VBool True)],
                Some (st(coll := fst (remove_first (has_id i) (st coll)))))
          else (Inl (HTTPException 404 ''Item not found''), Some st))"
proof (cases "object_id_of_str item_id")
  case None
  with assms show ?thesis by (simp add: delete_item_def oid_def)
next
  case (Some i)
  show ?thesis
  proof (cases "list_ex (has_id i) (st coll)")
    case True
    from remove_first_count [OF True] obtain c where "remove_first (has_id i) (st coll) = (c, 1)"
      by (cases "remove_first (has_id i) (st coll)") auto
    with assms Some True show ?thesis
      by (simp add: delete_item_def oid_def delete_one_id)
  next
    case False
    with assms Some remove_first_none [OF False] show ?thesis
      by (simp add: delete_item_def oid_def delete_one_id)
  qed
qed

lemma explicit_handler_items:
  assumes "map_of ALLOWED_COLLECTIONS endpoint = Some coll"
  shows "\<exists>filt k dir. explicit_list_handler L endpoint q loc subj (Some st)
           = Some (Inr (map (\<lambda>x. serialize L (Some x)) (find_sorted L st coll filt k dir)))"
proof -
  let ?P = "\<lambda>filt k dir. explicit_list_handler L endpoint q loc subj (Some st)
           = Some (Inr (map (\<lambda>x. serialize L (Some x)) (find_sorted L st coll filt k dir)))"
  from assms have "(endpoint, coll) \<in> set ALLOWED_COLLECTIONS" by (rule map_of_SomeD)
  then have "endpoint = ''beacons'' \<and> coll = ''beacon''
      \<or> endpoint = ''resources'' \<and> coll = ''resource''
      \<or> endpoint = ''tutors'' \<and> coll = ''tutor''
      \<or> endpoint = ''clubs'' \<and> coll = ''club''
      \<or> endpoint = ''events'' \<and> coll = ''event''
      \<or> endpoint = ''lostfound'' \<and> coll = ''lostfound''
      \<or> endpoint = ''market'' \<and> coll = ''market''"
    by (simp add: ALLOWED_COLLECTIONS_def)
  then have "?P (build_filter q loc subj) ''created_at'' (- 1)
      \<or> ?P (build_filter q loc None) ''created_at'' (- 1)
      \<or> ?P (build_filter q loc None) ''start_time'' 1"
  proof (elim disjE conjE)
    assume "endpoint = ''beacons''" "coll = ''beacon''"
    then have "?P (build_filter q loc subj) ''created_at'' (- 1)"
      by (simp add: explicit_list_handler_def list_beacons_def)
    then show ?thesis by (rule disjI1)
  next
    assume "endpoint = ''resources''" "coll = ''resource''"
    then have "?P (build_filter q loc subj) ''created_at'' (- 1)"
      by (simp add: explicit_list_handler_def list_resources_def)
    then show ?thesis by (rule disjI1)
  next
    assume "endpoint = ''tutors''" "coll = ''tutor''"
    then have "?P (build_filter q loc subj) ''created_at'' (- 1)"
      by (simp add: explicit_list_handler_def list_tutors_def)
    then show ?thesis by (rule disjI1)
  next
    assume "endpoint = ''clubs''" "coll = ''club''"
    then have "?P (build_filter q loc None) ''created_at'' (- 1)"
      by (simp add: explicit_list_handler_def list_clubs_def)
    then show ?thesis by (rule disjI2 [OF disjI1])
  next
    assume "endpoint = ''events''" "coll = ''event''"
    then have "?P (build_filter q loc None) ''start_time'' 1"
      by (simp add: explicit_list_handler_def list_events_def)
    then show ?thesis by (rule disjI2 [OF disjI2])
  next
    assume "endpoint = ''lostfound''" "coll = ''lostfound''"
    then have "?P (build_filter q loc subj) ''created_at'' (- 1)"
      by (simp add: explicit_list_handler_def list_lostfound_def)
    then show ?thesis by (rule disjI1)
  next
    assume "endpoint = ''market''" "coll = ''market''"
    then have "?P (build_filter q loc None) ''created_at'' (- 1)"
      by (simp add: explicit_list_handler_def list_market_def)
    then show ?thesis by (rule disjI2 [OF disjI1])
  qed
  then show ?thesis by (elim disjE) (rule exI, rule exI, rule exI, assumption)+
qed

lemma find_sorted_subset: "set (find_sorted L st coll filt k dir) \<subseteq> set (st coll)"
  by (auto simp: find_sorted_def sort_docs_def find_docs_def)

lemma serialized_id:
  assumes "has_object_id d" and "\<not> has_id i d"
  shows "\<exists>r. serialize L (Some d) = Some r \<and> map_of r ''id'' \<noteq> Some (VStr (hex i))"
proof -
  from assms(1) obtain j where j: "map_of d ''_id'' = Some (VOid j)"
    by (auto simp: has_object_id_def split: option.splits val.splits)
  with assms(2) have "j \<noteq> i" by (auto simp: has_id_def)
  then have "hex j \<noteq> hex i" by (cases i; cases j) simp
  with j show ?thesis
    by (simp add: serialize_def map_of_map_values map_of_renamed_id)
qed

lemma listed_ids:
  assumes "map_of ALLOWED_COLLECTIONS endpoint = Some coll"
    and "list_all has_object_id (st coll)"
    and "\<not> list_ex (has_id i) (st coll)"
    and "explicit_list_handler L endpoint q loc subj (Some st) = Some (Inr rs)"
    and "Some r \<in> set rs"
  shows "map_of r ''id'' \<noteq> Some (VStr (hex i))"
proof -
  from explicit_handler_items [OF assms(1), of L q loc subj st] assms(4)
  obtain filt k dir where
    "rs = map (\<lambda>x. serialize L (Some x)) (find_sorted L st coll filt k dir)"
    by auto
  with assms(5) obtain d where d: "d \<in> set (find_sorted L st coll filt k dir)"
    and r: "serialize L (Some d) = Some r"
    by auto
  from d find_sorted_subset have "d \<in> set (st coll)" by blast
  with assms(2,3) have "has_object_id d" "\<not> has_id i d"
    by (auto simp: list_all_iff list_ex_iff)
  from serialized_id [OF this, of L] r show ?thesis by simp
qed

text \<open>
  What \<open>delete_item\<close> does for a registered endpoint and a configured store. It
  fails with 400 exactly when \<^verbatim>\<open>ObjectId\<close> raises on the id, and then the store is
  unchanged; for an id that \<^verbatim>\<open>ObjectId\<close> accepts it fails with 404 "Item not found"
  exactly when no record of the endpoint's collection has that id, and then the store is
  unchanged; otherwise it returns \<^verbatim>\<open>{"success": True}\<close>, removes one record of that collection
  and touches no other collection. In a well-keyed collection the record removed is the
  one with that id and no other has it: the explicit list handler of the endpoint
  returns no record with that id afterwards and a second delete fails with 404.
\<close>

theorem delete_item_contract:
  assumes "map_of ALLOWED_COLLECTIONS endpoint = Some coll"
  shows
    "(fst (delete_item L endpoint item_id (Some st)) = Inl (HTTPException 400 ''Invalid id format'')
        \<longleftrightarrow> object_id_of_str item_id = None)
     \<and> (object_id_of_str item_id = None \<longrightarrow> snd (delete_item L endpoint item_id (Some st)) = Some st)
     \<and> (\<forall>i. object_id_of_str item_id = Some i \<longrightarrow>
          (fst (delete_item L endpoint item_id (Some st)) = Inl (HTTPException 404 ''Item not found'')
             \<longleftrightarrow> \<not> list_ex (has_id i) (st coll))
          \<and> (\<not> list_ex (has_id i) (st coll)
               \<longrightarrow> snd (delete_item L endpoint item_id (Some st)) = Some st)
          \<and> (list_ex (has_id i) (st coll) \<longrightarrow>
               fst (delete_item L endpoint item_id (Some st)) = Inr [(''success'', VBool True)]
               \<and> (\<exists>st'. snd (delete_item L endpoint item_id (Some st)) = Some st'
                     \<and> (\<forall>c. c \<noteq> coll \<longrightarrow> st' c = st c)
                     \<and> length (st' coll) + 1 = length (st coll)
                     \<and> (well_keyed (st coll) \<longrightarrow>
                          st' coll = filter (\<lambda>d. \<not> has_id i d) (st coll)
                          \<and> (\<forall>q loc subj rs r.
                                explicit_list_handler L endpoint q loc subj (Some st') = Some (Inr rs)
                                \<and> Some r \<in> set rs
                                \<longrightarrow> map_of r ''id'' \<noteq> Some (VStr (hex i)))
                          \<and> delete_item L endpoint item_id (Some st')
                              = (Inl (HTTPException 404 ''Item not found''), Some st')))))"
proof -
  note ev = delete_item_eval [OF assms, of L item_id]
  have a: "fst (delete_item L endpoint item_id (Some st)) = Inl (HTTPException 400 ''Invalid id format'')
        \<longleftrightarrow> object_id_of_str item_id = None"
    by (simp add: ev split: option.splits)
  have b: "snd (delete_item L endpoint item_id (Some st)) = Some st"
    if "object_id_of_str item_id = None"
    using that by (simp add: ev)
  have c: "(fst (delete_item L endpoint item_id (Some st)) = Inl (HTTPException 404 ''Item not found'')
             \<longleftrightarrow> \<not> list_ex (has_id i) (st coll))
          \<and> (\<not> list_ex (has_id i) (st coll)
               \<longrightarrow> snd (delete_item L endpoint item_id (Some st)) = Some st)"
    if "object_id_of_str item_id = Some i" for i
    using that by (simp add: ev)
  have d: "fst (delete_item L endpoint item_id (Some st)) = Inr [(''success'', VBool True)]
               \<and> (\<exists>st'. snd (delete_item L endpoint item_id (Some st)) = Some st'
                     \<and> (\<forall>c. c \<noteq> coll \<longrightarrow> st' c = st c)
                     \<and> length (st' coll) + 1 = length (st coll)
                     \<and> (well_keyed (st coll) \<longrightarrow>
                          st' coll = filter (\<lambda>d. \<not> has_id i d) (st coll)
                          \<and> (\<forall>q loc subj rs r.
                                explicit_list_handler L endpoint q loc subj (Some st') = Some (Inr rs)
                                \<and> Some r \<in> set rs
                                \<longrightarrow> map_of r ''id'' \<noteq> Some (VStr (hex i)))
                          \<and> delete_item L endpoint item_id (Some st')
                              = (Inl (HTTPException 404 ''Item not found''), Some st')))"
    if i: "object_id_of_str item_id = Some i" and ex: "list_ex (has_id i) (st coll)" for i
  proof -
    let ?st' = "st(coll := fst (remove_first (has_id i) (st coll)))"
    have r: "delete_item L endpoint item_id (Some st) = (Inr [(''success'', VBool True)], Some ?st')"
      using i ex by (simp add: ev)
    have len: "length (?st' coll) + 1 = length (st coll)"
      using remove_first_length [OF ex] by simp
    have wk: "?st' coll = filter (\<lambda>d. \<not> has_id i d) (st coll)
        \<and> (\<forall>q loc subj rs r.
              explicit_list_handler L endpoint q loc subj (Some ?st') = Some (Inr rs) \<and> Some r \<in> set rs
              \<longrightarrow> map_of r ''id'' \<noteq> Some (VStr (hex i)))
        \<and> delete_item L endpoint item_id (Some ?st')
              = (Inl (HTTPException 404 ''Item not found''), Some ?st')"
      if w: "well_keyed (st coll)"
    proof -
      from w have dist: "distinct (map (\<lambda>d. map_of d ''_id'') (st coll))"
        and oids: "list_all has_object_id (st coll)"
        by (simp_all add: well_keyed_def)
      from ex have ex': "list_ex (\<lambda>d. map_of d ''_id'' = Some (VOid i)) (st coll)"
        by (simp add: has_id_key)
      from remove_first_distinct [OF dist ex']
      have f: "?st' coll = filter (\<lambda>d. \<not> has_id i d) (st coll)"
        by (simp add: has_id_key)
      then have gone: "\<not> list_ex (has_id i) (?st' coll)"
        by (simp add: list_ex_iff)
      from f oids have oids': "list_all has_object_id (?st' coll)"
        by (simp add: list_all_iff)
      have l: "map_of r ''id'' \<noteq> Some (VStr (hex i))"
        if "explicit_list_handler L endpoint q loc subj (Some ?st') = Some (Inr rs) \<and> Some r \<in> set rs"
        for q loc subj rs r
        using listed_ids [where st = ?st' and endpoint = endpoint and coll = coll and i = i
            and L = L and q = q and loc = loc and subj = subj and rs = rs and r = r]
          assms oids' gone that
        by simp
      have again: "delete_item L endpoint item_id (Some ?st')
              = (Inl (HTTPException 404 ''Item not found''), Some ?st')"
        using i gone by (simp add: delete_item_eval [OF assms])
      from f l again show ?thesis by blast
    qed
    have frame: "\<forall>c. c \<noteq> coll \<longrightarrow> ?st' c = st c" by simp
    from r have f: "fst (delete_item L endpoint item_id (Some st)) = Inr [(''success'', VBool True)]"
      and s: "snd (delete_item L endpoint item_id (Some st)) = Some ?st'"
      by simp_all
    from f s len wk frame show ?thesis by blast
  qed
  from a b c d show ?thesis by blast
qed

text \<open>
  The sample beacons: deleting the first by its id, written in upper case, leaves the
  second; deleting it again is not found; \<^verbatim>\<open>b1\<close> is not an id.
\<close>

theorem delete_item_contract_example:
  "map_of ALLOWED_COLLECTIONS ''beacons'' = Some ''beacon''
   \<and> object_id_of_str ''0000000000000000000000B1'' = Some (ObjectId ''0000000000000000000000b1'')
   \<and> list_ex (has_id (ObjectId ''0000000000000000000000b1'')) (sample_db ''beacon'')
   \<and> well_keyed (sample_db ''beacon'')
   \<and> fst (delete_item sample_lib ''beacons'' ''0000000000000000000000B1'' (Some sample_db))
       = Inr [(''success'', VBool True)]
   \<and> (\<exists>st'. snd (delete_item sample_lib ''beacons'' ''0000000000000000000000B1'' (Some sample_db))
              = Some st'
         \<and> st' ''beacon'' = [sample_db ''beacon'' ! 1]
         \<and> delete_item sample_lib ''beacons'' ''0000000000000000000000B1'' (Some st')
             = (Inl (HTTPException 404 ''Item not found''), Some st'))
   \<and> object_id_of_str ''b1'' = None
   \<and> delete_item sample_lib ''beacons'' ''b1'' (Some sample_db)
       = (Inl (HTTPException 400 ''Invalid id format''), Some sample_db)"
proof -
  let ?i = "ObjectId ''0000000000000000000000b1''"
  have h1: "map_of ALLOWED_COLLECTIONS ''beacons'' = Some ''beacon''"
    by code_simp
  have h2: "object_id_of_str ''0000000000000000000000B1'' = Some ?i"
    by code_simp
  have h3: "list_ex (has_id ?i) (sample_db ''beacon'')"
    by code_simp
  have h4: "well_keyed (sample_db ''beacon'')"
    by code_simp
  have h5: "filter (\<lambda>d. \<not> has_id ?i d) (sample_db ''beacon'') = [sample_db ''beacon'' ! 1]"
    by code_simp
  have h6: "object_id_of_str ''b1'' = None"
    by code_simp
  note good = delete_item_contract
    [where endpoint = "''beacons''" and coll = "''beacon''" and L = sample_lib
       and item_id = "''0000000000000000000000B1''" and st = sample_db, OF h1]
  note bad = delete_item_contract
    [where endpoint = "''beacons''" and coll = "''beacon''" and L = sample_lib
       and item_id = "''b1''" and st = sample_db, OF h1]
  from bad [THEN conjunct1, THEN iffD2, OF h6] bad [THEN conjunct2, THEN conjunct1, THEN mp, OF h6]
  have b: "delete_item sample_lib ''beacons'' ''b1'' (Some sample_db)
       = (Inl (HTTPException 400 ''Invalid id format''), Some sample_db)"
    by (simp add: prod_eq_iff)
  note g = good [THEN conjunct2, THEN conjunct2, THEN spec, THEN mp, OF h2,
      THEN conjunct2, THEN conjunct2, THEN mp, OF h3]
  from g have f: "fst (delete_item sample_lib ''beacons'' ''0000000000000000000000B1'' (Some sample_db))
       = Inr [(''success'', VBool True)]"
    by (rule conjunct1)
  from g [THEN conjunct2] obtain st' where
    s: "snd (delete_item sample_lib ''beacons'' ''0000000000000000000000B1'' (Some sample_db)) = Some st'"
    and w: "well_keyed (sample_db ''beacon'') \<longrightarrow>
              st' ''beacon'' = filter (\<lambda>d. \<not> has_id ?i d) (sample_db ''beacon'')
              \<and> (\<forall>q loc subj rs r.
                    explicit_list_handler sample_lib ''beacons'' q loc subj (Some st') = Some (Inr rs)
                    \<and> Some r \<in> set rs
                    \<longrightarrow> map_of r ''id'' \<noteq> Some (VStr (hex ?i)))
              \<and> delete_item sample_lib ''beacons'' ''0000000000000000000000B1'' (Some st')
                  = (Inl (HTTPException 404 ''Item not found''), Some st')"
    by (elim exE conjE)
  from w [THEN mp, OF h4] h5 have
    "st' ''beacon'' = [sample_db ''beacon'' ! 1]"
    "delete_item sample_lib ''beacons'' ''0000000000000000000000B1'' (Some st')
       = (Inl (HTTPException 404 ''Item not found''), Some st')"
    by simp_all
  with s have e: "\<exists>st'. snd (delete_item sample_lib ''beacons'' ''0000000000000000000000B1'' (Some sample_db))
              = Some st'
         \<and> st' ''beacon'' = [sample_db ''beacon'' ! 1]
         \<and> delete_item sample_lib ''beacons'' ''0000000000000000000000B1'' (Some st')
             = (Inl (HTTPException 404 ''Item not found''), Some st')"
    by (intro exI [of _ st'] conjI)
  from h1 h2 h3 h4 f e h6 b show ?thesis by (intro conjI)
qed

text \<open>
  Claim C4, at the id \<^verbatim>\<open>0000 0000 0000 0000 0000\<close>: 24 characters, four of them
  spaces, so not the 24 hexadecimal digits of a store id. \<^verbatim>\<open>ObjectId\<close> does not raise
  on it (the spaces are skipped and a 10-byte id results), so \<open>oid\<close> does not fail with
  400: \<open>delete_item\<close> asks the store to delete the record with that id and, finding
  none, fails with 404 "Item not found".
\<close>

theorem delete_item_malformed_id:
  "length ''0000 0000 0000 0000 0000'' = 24
   \<and> \<not> list_all is_hex_digit ''0000 0000 0000 0000 0000''
   \<and> oid ''0000 0000 0000 0000 0000'' = Inr (ObjectId ''00000000000000000000'')
   \<and> delete_item sample_lib ''beacons'' ''0000 0000 0000 0000 0000'' (Some sample_db)
       = (Inl (HTTPException 404 ''Item not found''), Some sample_db)"
proof -
  have h1: "map_of ALLOWED_COLLECTIONS ''beacons'' = Some ''beacon''"
    by code_simp
  have h2: "object_id_of_str ''0000 0000 0000 0000 0000'' = Some (ObjectId ''00000000000000000000'')"
    by code_simp
  have h3: "\<not> list_ex (has_id (ObjectId ''00000000000000000000'')) (sample_db ''beacon'')"
    by code_simp
  have h4: "length ''0000 0000 0000 0000 0000'' = 24"
    by simp
  have h5: "\<not> list_all is_hex_digit ''0000 0000 0000 0000 0000''"
    by code_simp
  from h2 have h6: "oid ''0000 0000 0000 0000 0000'' = Inr (ObjectId ''00000000000000000000'')"
    by (simp add: oid_def)
  from h2 h3 have "delete_item sample_lib ''beacons'' ''0000 0000 0000 0000 0000'' (Some sample_db)
       = (Inl (HTTPException 404 ''Item not found''), Some sample_db)"
    by (simp add: delete_item_eval [OF h1])
  with h4 h5 h6 show ?thesis by (intro conjI)
qed

section \<open>Signup\<close>

lemma find_none: "find P xs = None \<longleftrightarrow> \<not> list_ex P xs"
  by (auto simp: find_None_iff list_ex_iff)

lemma find_some: "find P xs = Some x \<Longrightarrow> P x \<and> x \<in> set xs"
  by (auto simp: find_Some_iff)

lemma signup_query:
  "matches L (Dict [AnyOf [Dict [Field ''student_id'' (Eq (VStr (student_id payload)))],
                          Dict [Field ''email'' (Eq (VStr (email payload)))]]])
     = account_clash payload"
  by (simp add: fun_eq_iff account_clash_def)

lemma login_query:
  "matches L (Dict [AnyOf [Dict [Field ''email'' (Eq (VStr ident))],
                          Dict [Field ''student_id'' (Eq (VStr ident))]]])
     = identifies ident"
  by (simp add: fun_eq_iff identifies_def)

lemma account_clash_nonempty: "account_clash payload u \<Longrightarrow> u \<noteq> []"
  by (auto simp: account_clash_def)

lemma identifies_nonempty: "identifies ident u \<Longrightarrow> u \<noteq> []"
  by (auto simp: identifies_def)

lemma signup_taken:
  assumes "list_ex (account_clash payload) (st ''user'')"
  shows "signup L E payload (Some st)
           = (Inl (HTTPException 400 ''Account already exists''), Some st)"
proof -
  from assms obtain u where u: "find (account_clash payload) (st ''user'') = Some u"
    using find_none [of "account_clash payload" "st ''user''"] by (cases "find (account_clash payload) (st ''user'')") auto
  from find_some [OF u] have "u \<noteq> []" by (auto dest: account_clash_nonempty)
  with u show ?thesis
    by (simp add: signup_def find_one_def signup_query)
qed

lemma signup_free:
  assumes "\<not> list_ex (account_clash payload) (st ''user'')"
  shows "signup L E payload (Some st)
    = (case insert_one (st ''user'')
              [(''student_id'', VStr (student_id payload)),
               (''name'', VStr (name payload)),
               (''email'', VStr (email payload)),
               (''password_hash'', VStr (sha256_hexdigest L (password payload))),
               (''avatar_url'', VNull),
               (''bio'', VNull),
               (''created_at'', VDate (utcnow1 E)),
               (''updated_at'', VDate (utcnow2 E))] (new_object_id E) of
         Inl e \<Rightarrow> (Inl e, Some st)
       | Inr (c, inserted_id) \<Rightarrow>
           (Inr [(''id'', VStr (py_str L inserted_id)), (''message'', VStr ''Signup successful'')],
            Some (st(''user'' := c))))"
proof -
  from assms have "find (account_clash payload) (st ''user'') = None"
    by (simp add: find_none)
  then show ?thesis
    by (simp add: signup_def find_one_def signup_query hash_password_def)
qed

text \<open>
  Claim C5. With a configured store, \<open>signup\<close> fails with 400 "Account already
  exists" exactly when some stored user has the requested student id or the requested
  email, and then the store is unchanged. Otherwise, the generated id being new to the
  collection, it appends to \<^verbatim>\<open>user\<close> the document with the request's fields, the hash
  of the password, null avatar and bio and the two timestamps, and returns the new id.
\<close>

theorem signup_contract:
  "(fst (signup L E payload (Some st)) = Inl (HTTPException 400 ''Account already exists'')
      \<longleftrightarrow> list_ex (account_clash payload) (st ''user''))
   \<and> (list_ex (account_clash payload) (st ''user'')
        \<longrightarrow> snd (signup L E payload (Some st)) = Some st)
   \<and> (\<not> list_ex (account_clash payload) (st ''user'')
        \<and> \<not> list_ex (has_id (new_object_id E)) (st ''user'')
      \<longrightarrow> signup L E payload (Some st)
            = (Inr [(''id'', VStr (hex (new_object_id E))),
                    (''message'', VStr ''Signup successful'')],
               Some (st(''user'' := st ''user'' @
                 [[(''_id'', VOid (new_object_id E)),
                   (''student_id'', VStr (student_id payload)),
                   (''name'', VStr (name payload)),
                   (''email'', VStr (email payload)),
                   (''password_hash'', VStr (sha256_hexdigest L (password payload))),
                   (''avatar_url'', VNull),
                   (''bio'', VNull),
                   (''created_at'', VDate (utcnow1 E)),
                   (''updated_at'', VDate (utcnow2 E))]]))))"
proof (cases "list_ex (account_clash payload) (st ''user'')")
  case True
  then show ?thesis by (simp add: signup_taken)
next
  case False
  let ?d = "[(''student_id'', VStr (student_id payload)),
               (''name'', VStr (name payload)),
               (''email'', VStr (email payload)),
               (''password_hash'', VStr (sha256_hexdigest L (password payload))),
               (''avatar_url'', VNull),
               (''bio'', VNull),
               (''created_at'', VDate (utcnow1 E)),
               (''updated_at'', VDate (utcnow2 E))]"
  have noid: "map_of ?d ''_id'' = None" by simp
  have a: "fst (signup L E payload (Some st)) \<noteq> Inl (HTTPException 400 ''Account already exists'')"
  proof (cases "insert_one (st ''user'') ?d (new_object_id E)")
    case (Inl e)
    then have "e = DuplicateKeyError" by (rule insert_one_error)
    with Inl False show ?thesis by (simp add: signup_free)
  next
    case (Inr p)
    with False show ?thesis by (simp add: signup_free split: prod.splits)
  qed
  have b: "signup L E payload (Some st)
            = (Inr [(''id'', VStr (hex (new_object_id E))),
                    (''message'', VStr ''Signup successful'')],
               Some (st(''user'' := st ''user'' @ [(''_id'', VOid (new_object_id E)) # ?d])))"
    if "\<not> list_ex (has_id (new_object_id E)) (st ''user'')"
    using False insert_one_fresh [OF noid that] by (simp add: signup_free)
  from False a b show ?thesis by simp
qed

text \<open>
  A new student signs up in the sample store; a request with a new student id and Ada's
  email is refused and the store stays as it was.
\<close>

theorem signup_contract_witness:
  "\<not> list_ex (account_clash sample_signup) (sample_db ''user'')
   \<and> \<not> list_ex (has_id (new_object_id sample_env)) (sample_db ''user'')
   \<and> fst (signup sample_lib sample_env sample_signup (Some sample_db))
       = Inr [(''id'', VStr ''0000000000000000000000ff''), (''message'', VStr ''Signup successful'')]
   \<and> list_ex (account_clash (sample_signup\<lparr>email := ''ada@uni.edu''\<rparr>)) (sample_db ''user'')
   \<and> signup sample_lib sample_env (sample_signup\<lparr>email := ''ada@uni.edu''\<rparr>) (Some sample_db)
       = (Inl (HTTPException 400 ''Account already exists''), Some sample_db)"
proof -
  have h1: "\<not> list_ex (account_clash sample_signup) (sample_db ''user'')"
    by code_simp
  have h2: "\<not> list_ex (has_id (new_object_id sample_env)) (sample_db ''user'')"
    by code_simp
  have h3: "list_ex (account_clash (sample_signup\<lparr>email := ''ada@uni.edu''\<rparr>)) (sample_db ''user'')"
    by code_simp
  have h4: "hex (new_object_id sample_env) = ''0000000000000000000000ff''"
    by code_simp
  note ok = signup_contract [of sample_lib sample_env sample_signup sample_db,
      THEN conjunct2, THEN conjunct2, THEN mp, OF conjI [OF h1 h2]]
  note taken = signup_contract
      [of sample_lib sample_env "sample_signup\<lparr>email := ''ada@uni.edu''\<rparr>" sample_db]
  from ok h4 have a: "fst (signup sample_lib sample_env sample_signup (Some sample_db))
       = Inr [(''id'', VStr ''0000000000000000000000ff''), (''message'', VStr ''Signup successful'')]"
    by simp
  from taken [THEN conjunct1, THEN iffD2, OF h3] taken [THEN conjunct2, THEN conjunct1, THEN mp, OF h3]
  have b: "signup sample_lib sample_env (sample_signup\<lparr>email := ''ada@uni.edu''\<rparr>) (Some sample_db)
       = (Inl (HTTPException 400 ''Account already exists''), Some sample_db)"
    by (simp add: prod_eq_iff)
  from h1 h2 h3 a b show ?thesis by (intro conjI)
qed

section \<open>Login\<close>

lemma dict_get_str: "dict_get u k = VStr h \<longleftrightarrow> map_of u k = Some (VStr h)"
  by (auto simp: dict_get_def split: option.splits)

lemma login_unknown:
  assumes "find (identifies (login_identifier payload)) (st ''user'') = None"
  shows "login L E payload (Some st) = (Inl (HTTPException 401 ''Invalid credentials''), Some st)"
  using assms by (simp add: login_def find_one_def login_query)

lemma login_wrong_password:
  assumes "find (identifies (login_identifier payload)) (st ''user'') = Some u"
    and "map_of u ''password_hash'' \<noteq> Some (VStr (sha256_hexdigest L (login_password payload)))"
  shows "login L E payload (Some st) = (Inl (HTTPException 401 ''Invalid credentials''), Some st)"
  using assms by (simp add: login_def find_one_def login_query dict_get_str hash_password_def)

lemma login_accepted:
  assumes "find (identifies (login_identifier payload)) (st ''user'') = Some u"
    and "map_of u ''password_hash'' = Some (VStr (sha256_hexdigest L (login_password payload)))"
  shows "login L E payload (Some st)
    = (case insert_one (st ''session'')
              [(''user_id'', VStr (py_str L (dict_get u ''_id''))),
               (''token'', VStr (uuid4 E)),
               (''created_at'', VDate (utcnow1 E)),
               (''expires_at'', VDate (utcnow2 E + 7 * 86400 * 1000000))] (new_object_id E) of
         Inl e \<Rightarrow> (Inl e, Some st)
       | Inr (c, inserted_id) \<Rightarrow>
           (Inr \<lparr> token = uuid4 E, user = serialize L (Some u) \<rparr>, Some (st(''session'' := c))))"
proof -
  from find_some [OF assms(1)] have "u \<noteq> []" by (auto dest: identifies_nonempty)
  with assms show ?thesis
    by (simp add: login_def find_one_def login_query dict_get_str hash_password_def
          timedelta_days_def Let_def)
qed

lemma serialize_field:
  assumes "k \<noteq> ''id''" and "k \<noteq> ''_id''"
  shows "\<exists>r. serialize L (Some d) = Some r
           \<and> map_of r k = map_option (serialize_value L) (map_of d k)"
  using assms
  by (cases "map_of d ''_id''") (simp_all add: serialize_def map_of_map_values map_of_renamed_id)

text \<open>
  Claim C6. With a configured store, \<open>login\<close> fails with 401 exactly when the
  credentials are rejected: no stored user has the identifier as email or student id, or
  the user found does not hold the hash of the supplied password; then the store is
  unchanged. Otherwise, the generated id being new to \<^verbatim>\<open>session\<close>, it appends a
  session with the user's id, the token, \<^verbatim>\<open>created_at\<close> and \<^verbatim>\<open>expires_at\<close> seven days
  after the clock reading taken for it, and returns the token drawn from \<^verbatim>\<open>uuid4\<close>
  with the serialized user, whose \<^verbatim>\<open>password_hash\<close> is included.
\<close>

theorem login_contract:
  "(find (identifies (login_identifier payload)) (st ''user'') = None
      \<longleftrightarrow> \<not> list_ex (identifies (login_identifier payload)) (st ''user''))
   \<and> (fst (login L E payload (Some st)) = Inl (HTTPException 401 ''Invalid credentials'')
        \<longleftrightarrow> credentials_rejected L payload (st ''user''))
   \<and> (credentials_rejected L payload (st ''user'')
        \<longrightarrow> snd (login L E payload (Some st)) = Some st)
   \<and> (\<forall>u. find (identifies (login_identifier payload)) (st ''user'') = Some u
          \<and> map_of u ''password_hash''
              = Some (VStr (sha256_hexdigest L (login_password payload)))
          \<and> \<not> list_ex (has_id (new_object_id E)) (st ''session'')
        \<longrightarrow> login L E payload (Some st)
              = (Inr \<lparr> token = uuid4 E, user = serialize L (Some u) \<rparr>,
                 Some (st(''session'' := st ''session'' @
                   [[(''_id'', VOid (new_object_id E)),
                     (''user_id'', VStr (py_str L (dict_get u ''_id''))),
                     (''token'', VStr (uuid4 E)),
                     (''created_at'', VDate (utcnow1 E)),
                     (''expires_at'', VDate (utcnow2 E + 7 * 86400 * 1000000))]])))
          \<and> (\<forall>j. map_of u ''_id'' = Some (VOid j) \<longrightarrow> py_str L (dict_get u ''_id'') = hex j)
          \<and> (\<exists>r. serialize L (Some u) = Some r
                \<and> map_of r ''password_hash''
                    = Some (VStr (sha256_hexdigest L (login_password payload)))))"
proof -
  let ?found = "find (identifies (login_identifier payload)) (st ''user'')"
  let ?h = "VStr (sha256_hexdigest L (login_password payload))"
  let ?s = "[(''user_id'', VStr (py_str L (dict_get u ''_id''))),
               (''token'', VStr (uuid4 E)),
               (''created_at'', VDate (utcnow1 E)),
               (''expires_at'', VDate (utcnow2 E + 7 * 86400 * 1000000))]"
  have a: "?found = None \<longleftrightarrow> \<not> list_ex (identifies (login_identifier payload)) (st ''user'')"
    by (rule find_none)
  have rej: "login L E payload (Some st) = (Inl (HTTPException 401 ''Invalid credentials''), Some st)"
    if "credentials_rejected L payload (st ''user'')"
  proof (cases ?found)
    case None
    then show ?thesis by (rule login_unknown)
  next
    case (Some u)
    with that have "map_of u ''password_hash'' \<noteq> Some ?h"
      by (simp add: credentials_rejected_def)
    with Some show ?thesis by (rule login_wrong_password)
  qed
  have acc: "fst (login L E payload (Some st)) \<noteq> Inl (HTTPException 401 ''Invalid credentials'')"
    if "\<not> credentials_rejected L payload (st ''user'')"
  proof -
    from that obtain u where u: "?found = Some u" and p: "map_of u ''password_hash'' = Some ?h"
      by (auto simp: credentials_rejected_def split: option.splits)
    show ?thesis
    proof (cases "insert_one (st ''session'')
              [(''user_id'', VStr (py_str L (dict_get u ''_id''))),
               (''token'', VStr (uuid4 E)),
               (''created_at'', VDate (utcnow1 E)),
               (''expires_at'', VDate (utcnow2 E + 7 * 86400 * 1000000))] (new_object_id E)")
      case (Inl e)
      then have "e = DuplicateKeyError" by (rule insert_one_error)
      with Inl show ?thesis by (simp add: login_accepted [where st = st and E = E, OF u p])
    next
      case (Inr x)
      then show ?thesis by (simp add: login_accepted [where st = st and E = E, OF u p] split: prod.splits)
    qed
  qed
  have b: "fst (login L E payload (Some st)) = Inl (HTTPException 401 ''Invalid credentials'')
        \<longleftrightarrow> credentials_rejected L payload (st ''user'')"
    using rej acc by (cases "credentials_rejected L payload (st ''user'')") simp_all
  have c: "snd (login L E payload (Some st)) = Some st"
    if "credentials_rejected L payload (st ''user'')"
    using rej [OF that] by simp
  have d: "login L E payload (Some st)
              = (Inr \<lparr> token = uuid4 E, user = serialize L (Some u) \<rparr>,
                 Some (st(''session'' := st ''session'' @
                   [[(''_id'', VOid (new_object_id E)),
                     (''user_id'', VStr (py_str L (dict_get u ''_id''))),
                     (''token'', VStr (uuid4 E)),
                     (''created_at'', VDate (utcnow1 E)),
                     (''expires_at'', VDate (utcnow2 E + 7 * 86400 * 1000000))]])))
          \<and> (\<forall>j. map_of u ''_id'' = Some (VOid j) \<longrightarrow> py_str L (dict_get u ''_id'') = hex j)
          \<and> (\<exists>r. serialize L (Some u) = Some r \<and> map_of r ''password_hash'' = Some ?h)"
    if "?found = Some u \<and> map_of u ''password_hash'' = Some ?h
          \<and> \<not> list_ex (has_id (new_object_id E)) (st ''session'')" for u
  proof -
    from that have u: "?found = Some u" and p: "map_of u ''password_hash'' = Some ?h"
      and fresh: "\<not> list_ex (has_id (new_object_id E)) (st ''session'')"
      by simp_all
    have noid: "map_of [(''user_id'', VStr (py_str L (dict_get u ''_id''))),
               (''token'', VStr (uuid4 E)),
               (''created_at'', VDate (utcnow1 E)),
               (''expires_at'', VDate (utcnow2 E + 7 * 86400 * 1000000))] ''_id'' = None"
      by simp
    have d1: "login L E payload (Some st)
              = (Inr \<lparr> token = uuid4 E, user = serialize L (Some u) \<rparr>,
                 Some (st(''session'' := st ''session'' @
                   [[(''_id'', VOid (new_object_id E)),
                     (''user_id'', VStr (py_str L (dict_get u ''_id''))),
                     (''token'', VStr (uuid4 E)),
                     (''created_at'', VDate (utcnow1 E)),
                     (''expires_at'', VDate (utcnow2 E + 7 * 86400 * 1000000))]])))"
      using insert_one_fresh [OF noid fresh] by (simp add: login_accepted [where st = st and E = E, OF u p])
    have d2: "\<forall>j. map_of u ''_id'' = Some (VOid j) \<longrightarrow> py_str L (dict_get u ''_id'') = hex j"
      by (simp add: dict_get_def)
    from serialize_field [of "''password_hash''" L u] p
    have d3: "\<exists>r. serialize L (Some u) = Some r \<and> map_of r ''password_hash'' = Some ?h"
      by simp
    from d1 d2 d3 show ?thesis by (intro conjI)
  qed
  have c': "credentials_rejected L payload (st ''user'')
        \<longrightarrow> snd (login L E payload (Some st)) = Some st"
    by (rule impI) (rule c)
  have d': "\<forall>u. find (identifies (login_identifier payload)) (st ''user'') = Some u
          \<and> map_of u ''password_hash''
              = Some (VStr (sha256_hexdigest L (login_password payload)))
          \<and> \<not> list_ex (has_id (new_object_id E)) (st ''session'')
        \<longrightarrow> login L E payload (Some st)
              = (Inr \<lparr> token = uuid4 E, user = serialize L (Some u) \<rparr>,
                 Some (st(''session'' := st ''session'' @
                   [[(''_id'', VOid (new_object_id E)),
                     (''user_id'', VStr (py_str L (dict_get u ''_id''))),
                     (''token'', VStr (uuid4 E)),
                     (''created_at'', VDate (utcnow1 E)),
                     (''expires_at'', VDate (utcnow2 E + 7 * 86400 * 1000000))]])))
          \<and> (\<forall>j. map_of u ''_id'' = Some (VOid j) \<longrightarrow> py_str L (dict_get u ''_id'') = hex j)
          \<and> (\<exists>r. serialize L (Some u) = Some r
                \<and> map_of r ''password_hash''
                    = Some (VStr (sha256_hexdigest L (login_password payload))))"
    by (intro allI impI) (rule d)
  from a b c' d' show ?thesis by (intro conjI)
qed

text \<open>
  Ada logs in to the sample store with her email and password; a wrong password is
  rejected and creates no session.
\<close>

theorem login_contract_witness:
  "find (identifies (login_identifier sample_login)) (sample_db ''user'')
     = Some (sample_db ''user'' ! 0)
   \<and> map_of (sample_db ''user'' ! 0) ''password_hash''
       = Some (VStr (sha256_hexdigest sample_lib (login_password sample_login)))
   \<and> \<not> list_ex (has_id (new_object_id sample_env)) (sample_db ''session'')
   \<and> login sample_lib sample_env sample_login (Some sample_db)
       = (Inr \<lparr> token = ''3f2b8c1e-9d4a-4e6f-8a7b-5c0d1e2f3a4b'',
                user = Some [(''student_id'', VStr ''s1''), (''name'', VStr ''Ada''),
                             (''email'', VStr ''ada@uni.edu''),
                             (''password_hash'', VStr ''sha256:secret''),
                             (''avatar_url'', VNull), (''bio'', VNull),
                             (''created_at'', VStr ''isoformat''),
                             (''updated_at'', VStr ''isoformat''),
                             (''id'', VStr ''0000000000000000000000a1'')] \<rparr>,
          Some (sample_db(''session'' :=
            [[(''_id'', VOid (ObjectId ''0000000000000000000000ff'')),
              (''user_id'', VStr ''0000000000000000000000a1''),
              (''token'', VStr ''3f2b8c1e-9d4a-4e6f-8a7b-5c0d1e2f3a4b''),
              (''created_at'', VDate 1000),
              (''expires_at'', VDate 604800001001)]])))
   \<and> credentials_rejected sample_lib (sample_login\<lparr>login_password := ''wrong''\<rparr>)
       (sample_db ''user'')
   \<and> login sample_lib sample_env (sample_login\<lparr>login_password := ''wrong''\<rparr>) (Some sample_db)
       = (Inl (HTTPException 401 ''Invalid credentials''), Some sample_db)"
proof -
  have h1: "find (identifies (login_identifier sample_login)) (sample_db ''user'')
     = Some (sample_db ''user'' ! 0)"
    by code_simp
  have h2: "map_of (sample_db ''user'' ! 0) ''password_hash''
       = Some (VStr (sha256_hexdigest sample_lib (login_password sample_login)))"
    by code_simp
  have h3: "\<not> list_ex (has_id (new_object_id sample_env)) (sample_db ''session'')"
    by code_simp
  have h4: "credentials_rejected sample_lib (sample_login\<lparr>login_password := ''wrong''\<rparr>)
       (sample_db ''user'')"
    by code_simp
  have e1: "serialize sample_lib (Some (sample_db ''user'' ! 0))
     = Some [(''student_id'', VStr ''s1''), (''name'', VStr ''Ada''),
             (''email'', VStr ''ada@uni.edu''), (''password_hash'', VStr ''sha256:secret''),
             (''avatar_url'', VNull), (''bio'', VNull),
             (''created_at'', VStr ''isoformat''), (''updated_at'', VStr ''isoformat''),
             (''id'', VStr ''0000000000000000000000a1'')]"
    by code_simp
  have e2: "uuid4 sample_env = ''3f2b8c1e-9d4a-4e6f-8a7b-5c0d1e2f3a4b''"
    "new_object_id sample_env = ObjectId ''0000000000000000000000ff''"
    "utcnow1 sample_env = 1000" "utcnow2 sample_env = 1001"
    by (simp_all add: sample_env_def)
  have e3: "sample_db ''session'' = []"
    by code_simp
  have e4: "py_str sample_lib (dict_get (sample_db ''user'' ! 0) ''_id'')
     = ''0000000000000000000000a1''"
    by code_simp
  note ok = login_contract
    [where payload = sample_login and st = sample_db and L = sample_lib and E = sample_env,
      THEN conjunct2, THEN conjunct2, THEN conjunct2, THEN spec, THEN mp,
      OF conjI [OF h1 conjI [OF h2 h3]], THEN conjunct1]
  note no = login_contract
    [where payload = "sample_login\<lparr>login_password := ''wrong''\<rparr>" and st = sample_db
       and L = sample_lib and E = sample_env]
  from ok have a: "login sample_lib sample_env sample_login (Some sample_db)
       = (Inr \<lparr> token = ''3f2b8c1e-9d4a-4e6f-8a7b-5c0d1e2f3a4b'',
                user = Some [(''student_id'', VStr ''s1''), (''name'', VStr ''Ada''),
                             (''email'', VStr ''ada@uni.edu''),
                             (''password_hash'', VStr ''sha256:secret''),
                             (''avatar_url'', VNull), (''bio'', VNull),
                             (''created_at'', VStr ''isoformat''),
                             (''updated_at'', VStr ''isoformat''),
                             (''id'', VStr ''0000000000000000000000a1'')] \<rparr>,
          Some (sample_db(''session'' :=
            [[(''_id'', VOid (ObjectId ''0000000000000000000000ff'')),
              (''user_id'', VStr ''0000000000000000000000a1''),
              (''token'', VStr ''3f2b8c1e-9d4a-4e6f-8a7b-5c0d1e2f3a4b''),
              (''created_at'', VDate 1000),
              (''expires_at'', VDate 604800001001)]])))"
    by (simp add: e1 e2 e3 e4)
  from no [THEN conjunct2, THEN conjunct1, THEN iffD2, OF h4]
    no [THEN conjunct2, THEN conjunct2, THEN conjunct1, THEN mp, OF h4]
  have b: "login sample_lib sample_env (sample_login\<lparr>login_password := ''wrong''\<rparr>) (Some sample_db)
       = (Inl (HTTPException 401 ''Invalid credentials''), Some sample_db)"
    by (simp add: prod_eq_iff)
  from h1 h2 h3 a h4 b show ?thesis by (intro conjI)
qed

end
